theory Spec2Isabelle
  imports Complex_Main
begin

section \<open>The dual-track trading engine (breakout FSM variant)\<close>

text \<open>
  The engine of the repository keeps two position tracks (LONG and SHORT). Each track owns
  a breakout state machine, at most one open paper trade, its history, and a nested live
  sub-track. This theory embeds the class \<^verbatim>\<open>TradingEngine\<close> (the variant with the
  breakout FSM, daily reset and persistence) function by function.

  Conventions of the embedding:
  \<^item> JavaScript numbers that carry prices and PnL are exact reals; \<^verbatim>\<open>NaN\<close> and the
    infinities are outside the model, and rounding is not modelled. In particular the
    quantity \<^verbatim>\<open>POSITION_SIZE / entryPrice\<close> of a paper trade entered at price 0 is
    \<^verbatim>\<open>Infinity\<close> in the source and 0 here; feeds deliver positive prices.
  \<^item> Timestamps (\<^verbatim>\<open>Date.now()\<close>) are natural numbers of milliseconds. A handler runs
    synchronously, so every \<^verbatim>\<open>Date.now()\<close> it performs is given by one reading, the
    parameter \<open>clk\<close> of the functions below.
  \<^item> \<^verbatim>\<open>null\<close> is \<open>None\<close>. Where the source can also hold \<^verbatim>\<open>undefined\<close> in a numeric
    slot (the threshold), the three cases are kept apart by the type \<open>jsnum\<close>.
  \<^item> Mutation of \<^verbatim>\<open>this.longState\<close> and \<^verbatim>\<open>this.shortState\<close> is state passing on a
    record. Outbound effects issued on behalf of a track (order notifications, the request
    to persist, the log line of a live close that carries its reason) are appended to the
    field \<open>outbox\<close> of the track, oldest first.
  \<^item> The display strings \<^verbatim>\<open>timeIst\<close> and \<^verbatim>\<open>exitTimeIst\<close> (a formatting of the clock)
    and all other \<^verbatim>\<open>console.log\<close> lines are left out. \<^verbatim>\<open>broadcastState\<close> only reads
    the state and is left out as well. The \<^verbatim>\<open>setTimeout\<close> of the daily reset is kept
    as the due time of the timer, in the field \<open>timers\<close> of the engine.
\<close>

subsection \<open>Data model\<close>

datatype jsnum = Null | Undefined | Num real

datatype direction = LONG | SHORT

datatype fsm = NOPOSITION | NOPOSITION_SIGNAL | BUYPOSITION | SELLPOSITION | NOPOSITION_BLOCKED

datatype livePos = NO_POSITION | POSITION

datatype kind = ENTRY | EXIT

text \<open>Trade identifiers are template strings built from direction, symbol and clock.\<close>

datatype tradeId = PaperId direction string nat | LiveId direction string nat | ExitOf tradeId

datatype effect =
    SendLiveSignal kind string real direction
  | LogLiveClosed direction string string real real
  | SaveState

record PaperTrade =
  p_id :: tradeId
  p_symbol :: string
  p_direction :: direction
  p_entryPrice :: real
  p_currentPrice :: real
  p_quantity :: real
  p_unrealizedPnl :: real
  p_enteredAt :: nat

record ClosedPaperTrade =
  c_trade :: PaperTrade
  c_exitPrice :: real
  c_realizedPnl :: real
  c_reason :: string
  c_closedAt :: nat

record PendingPaperTrade =
  pend_entryPrice :: real
  pend_quantity :: real
  pend_lot :: real
  pend_openedAt :: nat

record LiveOpenTrade =
  o_id :: tradeId
  o_symbol :: string
  o_entryPrice :: real
  o_quantity :: real
  o_lot :: real

record LiveTradeRow =
  r_id :: tradeId
  r_symbol :: string
  r_action :: kind
  r_entryPrice :: real
  r_exitPrice :: "real option"
  r_quantity :: real
  r_realizedPnl :: "real option"
  r_cumulativePnl :: real
  r_closedAt :: "nat option"

record LiveState =
  state :: livePos
  cumulativePnl :: real
  unrealizedPnl :: real
  blockedAtMs :: "nat option"
  openTrade :: "LiveOpenTrade option"
  pendingPaperTrade :: "PendingPaperTrade option"
  trades :: "LiveTradeRow list"

record PeakSample =
  pk_pnl :: real
  pk_timestamp :: nat

record SignalRecord =
  sig_intent :: string
  sig_stoppx :: "real option"
  sig_ltp :: "real option"
  sig_receivedAt :: nat

record Track =
  fsmState :: fsm
  threshold :: jsnum
  paperTrade :: "PaperTrade option"
  paperTrades :: "ClosedPaperTrade list"
  peakPnlHistory :: "PeakSample list"
  currentPeakPnl :: "real option"
  liveState :: LiveState
  signals :: "SignalRecord list"
  lastSignalAtMs :: "nat option"
  lastBlockedAtMs :: "nat option"
  outbox :: "effect list"

record FsmDisplay =
  d_state :: fsm
  d_threshold :: jsnum

record Engine =
  longState :: Track
  shortState :: Track
  ltpBySymbol :: "string \<rightharpoonup> real"
  fsmBySymbol :: "string \<rightharpoonup> FsmDisplay"
  lastResetDate :: "int option"
  lastResetTimestamp :: nat
  timers :: "nat list"

text \<open>The normalized signal handed to \<^verbatim>\<open>processWebhookSignal\<close>.\<close>

record Signal =
  sg_symbol :: "string option"
  sg_intent :: "string option"
  sg_stoppx :: "real option"
  sg_side :: "string option"

subsection \<open>Constants and JavaScript helpers\<close>

definition OPEN_THRESHOLD :: real where
  "OPEN_THRESHOLD = 0"

definition CLOSE_THRESHOLD :: real where
  "CLOSE_THRESHOLD = 0"

definition POSITION_SIZE :: real where
  "POSITION_SIZE = 10"

text \<open>Truthiness of a timestamp slot: \<^verbatim>\<open>null\<close> and \<^verbatim>\<open>0\<close> are falsy.\<close>

fun truthyMs :: "nat option \<Rightarrow> bool" where
  "truthyMs None = False"
| "truthyMs (Some n) = (n \<noteq> 0)"

text \<open>Truthiness of a price slot: \<^verbatim>\<open>null\<close>/\<^verbatim>\<open>undefined\<close> and \<^verbatim>\<open>0\<close> are falsy.\<close>

fun truthyNum :: "real option \<Rightarrow> bool" where
  "truthyNum None = False"
| "truthyNum (Some x) = (x \<noteq> 0)"

text \<open>\<^verbatim>\<open>x || d\<close> on a price slot and on a timestamp slot.\<close>

fun numOr :: "real option \<Rightarrow> real \<Rightarrow> real" where
  "numOr None d = d"
| "numOr (Some x) d = (if x \<noteq> 0 then x else d)"

fun msOr :: "nat option \<Rightarrow> nat \<Rightarrow> nat" where
  "msOr None d = d"
| "msOr (Some n) d = (if n \<noteq> 0 then n else d)"

text \<open>
  The relational operators of JavaScript against a threshold slot: \<^verbatim>\<open>undefined\<close>
  converts to \<^verbatim>\<open>NaN\<close>, so every comparison is false; \<^verbatim>\<open>null\<close> converts to 0.
\<close>

fun js_gt :: "real \<Rightarrow> jsnum \<Rightarrow> bool" where
  "js_gt x (Num y) = (x > y)"
| "js_gt x Null = (x > 0)"
| "js_gt x Undefined = False"

fun js_lt :: "real \<Rightarrow> jsnum \<Rightarrow> bool" where
  "js_lt x (Num y) = (x < y)"
| "js_lt x Null = (x < 0)"
| "js_lt x Undefined = False"

text \<open>\<^verbatim>\<open>String.prototype.toUpperCase\<close> on ASCII, and \<^verbatim>\<open>String.prototype.includes\<close>.\<close>

definition toUpperChar :: "char \<Rightarrow> char" where
  "toUpperChar c =
     (case map_of (zip ''abcdefghijklmnopqrstuvwxyz'' ''ABCDEFGHIJKLMNOPQRSTUVWXYZ'') c of
        None \<Rightarrow> c
      | Some u \<Rightarrow> u)"

definition toUpperCase :: "string \<Rightarrow> string" where
  "toUpperCase s = map toUpperChar s"

fun includes_str :: "string \<Rightarrow> string \<Rightarrow> bool" where
  "includes_str [] sub = (sub = [])"
| "includes_str (c # cs) sub = (take (length sub) (c # cs) = sub \<or> includes_str cs sub)"

definition isFirstSecondNextMinute :: "nat \<Rightarrow> nat \<Rightarrow> bool" where
  "isFirstSecondNextMinute anchorAtMs tickAtMs =
     (tickAtMs div 60000 > anchorAtMs div 60000)"

definition createLiveState :: LiveState where
  "createLiveState =
     \<lparr>state = NO_POSITION, cumulativePnl = 0, unrealizedPnl = 0, blockedAtMs = None,
      openTrade = None, pendingPaperTrade = None, trades = []\<rparr>"

subsection \<open>Live sub-track\<close>

definition openLiveTrade :: "nat \<Rightarrow> direction \<Rightarrow> Track \<Rightarrow> real \<Rightarrow> string \<Rightarrow> Track" where
  "openLiveTrade clk dir st entryPrice symbol =
     (let live = liveState st in
      case pendingPaperTrade live of
        None \<Rightarrow> st
      | Some pending \<Rightarrow>
          let ident = LiveId dir symbol clk;
              tradeRow = \<lparr>r_id = ident, r_symbol = symbol, r_action = ENTRY,
                          r_entryPrice = entryPrice, r_exitPrice = None,
                          r_quantity = pend_quantity pending, r_realizedPnl = None,
                          r_cumulativePnl = cumulativePnl live, r_closedAt = None\<rparr>
          in st\<lparr>liveState := live
                   \<lparr>openTrade := Some \<lparr>o_id = ident, o_symbol = symbol,
                                         o_entryPrice = entryPrice,
                                         o_quantity = pend_quantity pending,
                                         o_lot = pend_lot pending\<rparr>,
                    state := POSITION,
                    trades := take 50 (tradeRow # trades live)\<rparr>,
                 outbox := outbox st @ [SendLiveSignal ENTRY symbol entryPrice dir]\<rparr>)"

definition closeLiveTrade :: "nat \<Rightarrow> direction \<Rightarrow> Track \<Rightarrow> real \<Rightarrow> string \<Rightarrow> Track" where
  "closeLiveTrade clk dir st exitPrice reason =
     (let live = liveState st in
      case openTrade live of
        None \<Rightarrow> st
      | Some ot \<Rightarrow>
          let realizedPnl =
                (if dir = LONG then (exitPrice - o_entryPrice ot) * o_quantity ot * o_lot ot
                 else (o_entryPrice ot - exitPrice) * o_quantity ot * o_lot ot);
              cum = cumulativePnl live + realizedPnl;
              exitRow = \<lparr>r_id = ExitOf (o_id ot), r_symbol = o_symbol ot, r_action = EXIT,
                         r_entryPrice = o_entryPrice ot, r_exitPrice = Some exitPrice,
                         r_quantity = o_quantity ot, r_realizedPnl = Some realizedPnl,
                         r_cumulativePnl = cum, r_closedAt = Some clk\<rparr>
          in st\<lparr>liveState := live
                   \<lparr>cumulativePnl := cum,
                    trades := take 50 (exitRow # trades live),
                    openTrade := None,
                    state := NO_POSITION,
                    unrealizedPnl := 0\<rparr>,
                 outbox := outbox st @
                   [LogLiveClosed dir reason (o_symbol ot) exitPrice realizedPnl,
                    SendLiveSignal EXIT (o_symbol ot) exitPrice dir]\<rparr>)"

text \<open>The four steps of \<^verbatim>\<open>checkLiveTrade\<close>, in the order of the source.\<close>

definition expireLiveBlock :: "nat \<Rightarrow> Track \<Rightarrow> Track" where
  "expireLiveBlock clk st =
     (case blockedAtMs (liveState st) of
        None \<Rightarrow> st
      | Some b \<Rightarrow>
          if b \<noteq> 0 \<and> isFirstSecondNextMinute b clk
          then st\<lparr>liveState := (liveState st)\<lparr>blockedAtMs := None\<rparr>\<rparr>
          else st)"

definition protectiveClose :: "nat \<Rightarrow> direction \<Rightarrow> Track \<Rightarrow> real \<Rightarrow> real \<Rightarrow> Track" where
  "protectiveClose clk dir st totalPnl currentPrice =
     (if state (liveState st) = POSITION \<and> openTrade (liveState st) \<noteq> None
         \<and> totalPnl \<le> CLOSE_THRESHOLD
      then let st' = closeLiveTrade clk dir st currentPrice ''Protective''
           in st'\<lparr>liveState := (liveState st')\<lparr>blockedAtMs := Some clk\<rparr>\<rparr>
      else st)"

definition activateLive :: "nat \<Rightarrow> direction \<Rightarrow> Track \<Rightarrow> real \<Rightarrow> real \<Rightarrow> string \<Rightarrow> Track" where
  "activateLive clk dir st totalPnl currentPrice symbol =
     (if state (liveState st) = NO_POSITION \<and> pendingPaperTrade (liveState st) \<noteq> None
         \<and> \<not> truthyMs (blockedAtMs (liveState st)) \<and> totalPnl > OPEN_THRESHOLD
      then openLiveTrade clk dir st currentPrice symbol
      else st)"

definition updateLiveUnrealized :: "direction \<Rightarrow> Track \<Rightarrow> real \<Rightarrow> Track" where
  "updateLiveUnrealized dir st currentPrice =
     (case openTrade (liveState st) of
        None \<Rightarrow> st
      | Some ot \<Rightarrow>
          st\<lparr>liveState := (liveState st)
             \<lparr>unrealizedPnl :=
                (if dir = LONG
                 then (currentPrice - o_entryPrice ot) * o_quantity ot * o_lot ot
                 else (o_entryPrice ot - currentPrice) * o_quantity ot * o_lot ot)\<rparr>\<rparr>)"

definition checkLiveTrade :: "nat \<Rightarrow> direction \<Rightarrow> Track \<Rightarrow> real \<Rightarrow> real \<Rightarrow> string \<Rightarrow> Track" where
  "checkLiveTrade clk dir st totalPnl currentPrice symbol =
     updateLiveUnrealized dir
       (activateLive clk dir
          (protectiveClose clk dir (expireLiveBlock clk st) totalPnl currentPrice)
          totalPnl currentPrice symbol)
       currentPrice"

subsection \<open>Paper trades\<close>

definition openPaperTrade :: "nat \<Rightarrow> direction \<Rightarrow> Track \<Rightarrow> string \<Rightarrow> real \<Rightarrow> Track" where
  "openPaperTrade clk dir st symbol entryPrice =
     (case paperTrade st of
        Some _ \<Rightarrow> st
      | None \<Rightarrow>
          let trade = \<lparr>p_id = PaperId dir symbol clk, p_symbol = symbol, p_direction = dir,
                       p_entryPrice = entryPrice, p_currentPrice = entryPrice,
                       p_quantity = POSITION_SIZE / entryPrice, p_unrealizedPnl = 0,
                       p_enteredAt = clk\<rparr>
          in st\<lparr>paperTrade := Some trade,
                 liveState := (liveState st)
                   \<lparr>pendingPaperTrade :=
                      Some \<lparr>pend_entryPrice = entryPrice, pend_quantity = p_quantity trade,
                            pend_lot = 1, pend_openedAt = clk\<rparr>\<rparr>\<rparr>)"

definition closePaperTrade :: "nat \<Rightarrow> direction \<Rightarrow> Track \<Rightarrow> real \<Rightarrow> string \<Rightarrow> Track" where
  "closePaperTrade clk dir st exitPrice reason =
     (case paperTrade st of
        None \<Rightarrow> st
      | Some trade \<Rightarrow>
          let realizedPnl =
                (if dir = LONG then (exitPrice - p_entryPrice trade) * p_quantity trade
                 else (p_entryPrice trade - exitPrice) * p_quantity trade);
              st1 = st\<lparr>liveState := (liveState st)
                         \<lparr>cumulativePnl := cumulativePnl (liveState st) + realizedPnl\<rparr>,
                       paperTrades :=
                         \<lparr>c_trade = trade, c_exitPrice = exitPrice,
                          c_realizedPnl = realizedPnl, c_reason = reason,
                          c_closedAt = clk\<rparr> # paperTrades st,
                       peakPnlHistory :=
                         (case currentPeakPnl st of
                            None \<Rightarrow> peakPnlHistory st
                          | Some pk \<Rightarrow>
                              if pk > 0
                              then \<lparr>pk_pnl = pk, pk_timestamp = clk\<rparr> # peakPnlHistory st
                              else peakPnlHistory st)\<rparr>;
              st2 = (if openTrade (liveState st1) \<noteq> None
                     then closeLiveTrade clk dir st1 exitPrice reason else st1)
          in st2\<lparr>paperTrade := None,
                  liveState := (liveState st2)\<lparr>pendingPaperTrade := None\<rparr>,
                  currentPeakPnl := None,
                  outbox := outbox st2 @ [SaveState]\<rparr>)"

subsection \<open>Tick processing\<close>

text \<open>
  \<^verbatim>\<open>processLongTickTransition\<close> in three phases, in the order of the source: the safety
  check, the update of the open position (with the live check), and the FSM switch, which
  is skipped together with the display update when the threshold is \<^verbatim>\<open>null\<close>.
\<close>

definition peakUpdate :: "real \<Rightarrow> real option \<Rightarrow> real option" where
  "peakUpdate currentPnl peak =
     (if currentPnl > 0 \<and> (case peak of None \<Rightarrow> True | Some pk \<Rightarrow> currentPnl > pk)
      then Some currentPnl else peak)"

definition longSafetyCheck :: "Track \<Rightarrow> Track" where
  "longSafetyCheck st =
     (if fsmState st = BUYPOSITION \<and> paperTrade st = None
      then st\<lparr>fsmState := NOPOSITION, threshold := Null, currentPeakPnl := None\<rparr>
      else st)"

definition longUpdatePosition :: "nat \<Rightarrow> string \<Rightarrow> real \<Rightarrow> Track \<Rightarrow> Track" where
  "longUpdatePosition clk symbol ltp st =
     (case paperTrade st of
        None \<Rightarrow> st
      | Some pt \<Rightarrow>
          if p_symbol pt = symbol
          then let currentPnl = (ltp - p_entryPrice pt) * p_quantity pt;
                   st1 = st\<lparr>paperTrade :=
                              Some (pt\<lparr>p_currentPrice := ltp, p_unrealizedPnl := currentPnl\<rparr>),
                            currentPeakPnl := peakUpdate currentPnl (currentPeakPnl st)\<rparr>;
                   totalPnl = cumulativePnl (liveState st1) + currentPnl
               in checkLiveTrade clk LONG st1 totalPnl ltp symbol
          else st)"

definition longFsmSwitch :: "nat \<Rightarrow> string \<Rightarrow> real \<Rightarrow> nat \<Rightarrow> Track \<Rightarrow> Track" where
  "longFsmSwitch clk symbol ltp now st =
     (case fsmState st of
        NOPOSITION_SIGNAL \<Rightarrow>
          if js_gt ltp (threshold st)
          then openPaperTrade clk LONG (st\<lparr>fsmState := BUYPOSITION\<rparr>) symbol ltp
          else st\<lparr>fsmState := NOPOSITION_BLOCKED, lastBlockedAtMs := Some now\<rparr>
      | BUYPOSITION \<Rightarrow>
          if js_lt ltp (threshold st)
          then (closePaperTrade clk LONG st ltp ''Stop Loss'')
                 \<lparr>fsmState := NOPOSITION_BLOCKED, lastBlockedAtMs := Some now\<rparr>
          else st
      | NOPOSITION_BLOCKED \<Rightarrow>
          (case lastBlockedAtMs st of
             None \<Rightarrow> st
           | Some b \<Rightarrow>
               if b \<noteq> 0 \<and> isFirstSecondNextMinute b now
               then (if js_gt ltp (threshold st)
                     then openPaperTrade clk LONG (st\<lparr>fsmState := BUYPOSITION\<rparr>) symbol ltp
                     else st\<lparr>lastBlockedAtMs := Some now\<rparr>)
               else st)
      | _ \<Rightarrow> st)"

text \<open>The effect of the tick on the track alone (without the display table).\<close>

definition longTick :: "nat \<Rightarrow> string \<Rightarrow> real \<Rightarrow> nat \<Rightarrow> Track \<Rightarrow> Track" where
  "longTick clk symbol ltp now st =
     (let st1 = longUpdatePosition clk symbol ltp (longSafetyCheck st)
      in if threshold st1 = Null then st1 else longFsmSwitch clk symbol ltp now st1)"

definition processLongTickTransition :: "nat \<Rightarrow> string \<Rightarrow> real \<Rightarrow> nat \<Rightarrow> Engine \<Rightarrow> Engine" where
  "processLongTickTransition clk symbol ltp now e =
     (let st1 = longUpdatePosition clk symbol ltp (longSafetyCheck (longState e))
      in if threshold st1 = Null then e\<lparr>longState := st1\<rparr>
         else let st2 = longFsmSwitch clk symbol ltp now st1
              in e\<lparr>longState := st2,
                   fsmBySymbol := (fsmBySymbol e)
                     (symbol @ ''_LONG'' \<mapsto>
                        \<lparr>d_state = fsmState st2, d_threshold = threshold st2\<rparr>)\<rparr>)"

definition shortSafetyCheck :: "Track \<Rightarrow> Track" where
  "shortSafetyCheck st =
     (if fsmState st = SELLPOSITION \<and> paperTrade st = None
      then st\<lparr>fsmState := NOPOSITION, threshold := Null, currentPeakPnl := None\<rparr>
      else st)"

definition shortUpdatePosition :: "nat \<Rightarrow> string \<Rightarrow> real \<Rightarrow> Track \<Rightarrow> Track" where
  "shortUpdatePosition clk symbol ltp st =
     (case paperTrade st of
        None \<Rightarrow> st
      | Some pt \<Rightarrow>
          if p_symbol pt = symbol
          then let currentPnl = (p_entryPrice pt - ltp) * p_quantity pt;
                   st1 = st\<lparr>paperTrade :=
                              Some (pt\<lparr>p_currentPrice := ltp, p_unrealizedPnl := currentPnl\<rparr>),
                            currentPeakPnl := peakUpdate currentPnl (currentPeakPnl st)\<rparr>;
                   totalPnl = cumulativePnl (liveState st1) + currentPnl
               in checkLiveTrade clk SHORT st1 totalPnl ltp symbol
          else st)"

definition shortFsmSwitch :: "nat \<Rightarrow> string \<Rightarrow> real \<Rightarrow> nat \<Rightarrow> Track \<Rightarrow> Track" where
  "shortFsmSwitch clk symbol ltp now st =
     (case fsmState st of
        NOPOSITION_SIGNAL \<Rightarrow>
          if js_lt ltp (threshold st)
          then openPaperTrade clk SHORT (st\<lparr>fsmState := SELLPOSITION\<rparr>) symbol ltp
          else st\<lparr>fsmState := NOPOSITION_BLOCKED, lastBlockedAtMs := Some now\<rparr>
      | SELLPOSITION \<Rightarrow>
          if js_gt ltp (threshold st)
          then (closePaperTrade clk SHORT st ltp ''Stop Loss'')
                 \<lparr>fsmState := NOPOSITION_BLOCKED, lastBlockedAtMs := Some now\<rparr>
          else st
      | NOPOSITION_BLOCKED \<Rightarrow>
          (case lastBlockedAtMs st of
             None \<Rightarrow> st
           | Some b \<Rightarrow>
               if b \<noteq> 0 \<and> isFirstSecondNextMinute b now
               then (if js_lt ltp (threshold st)
                     then openPaperTrade clk SHORT (st\<lparr>fsmState := SELLPOSITION\<rparr>) symbol ltp
                     else st\<lparr>lastBlockedAtMs := Some now\<rparr>)
               else st)
      | _ \<Rightarrow> st)"

definition shortTick :: "nat \<Rightarrow> string \<Rightarrow> real \<Rightarrow> nat \<Rightarrow> Track \<Rightarrow> Track" where
  "shortTick clk symbol ltp now st =
     (let st1 = shortUpdatePosition clk symbol ltp (shortSafetyCheck st)
      in if threshold st1 = Null then st1 else shortFsmSwitch clk symbol ltp now st1)"

definition processShortTickTransition :: "nat \<Rightarrow> string \<Rightarrow> real \<Rightarrow> nat \<Rightarrow> Engine \<Rightarrow> Engine" where
  "processShortTickTransition clk symbol ltp now e =
     (let st1 = shortUpdatePosition clk symbol ltp (shortSafetyCheck (shortState e))
      in if threshold st1 = Null then e\<lparr>shortState := st1\<rparr>
         else let st2 = shortFsmSwitch clk symbol ltp now st1
              in e\<lparr>shortState := st2,
                   fsmBySymbol := (fsmBySymbol e)
                     (symbol @ ''_SHORT'' \<mapsto>
                        \<lparr>d_state = fsmState st2, d_threshold = threshold st2\<rparr>)\<rparr>)"

definition updateLtp :: "nat \<Rightarrow> string \<Rightarrow> real \<Rightarrow> Engine \<Rightarrow> Engine" where
  "updateLtp clk symbol price e =
     (let e1 = e\<lparr>ltpBySymbol := (ltpBySymbol e)(symbol \<mapsto> price)\<rparr>
      in if \<not> includes_str (toUpperCase symbol) ''BTC'' then e1
         else processShortTickTransition clk symbol price clk
                (processLongTickTransition clk symbol price clk e1))"

subsection \<open>Signal ingestion\<close>

text \<open>
  \<^verbatim>\<open>stoppx || ltp\<close>: the stop price when it is truthy, otherwise whatever the price
  table returned (\<^verbatim>\<open>undefined\<close> when the symbol has no price yet).
\<close>

fun ofLookup :: "real option \<Rightarrow> jsnum" where
  "ofLookup None = Undefined"
| "ofLookup (Some x) = Num x"

fun stoppxOrLtp :: "real option \<Rightarrow> real option \<Rightarrow> jsnum" where
  "stoppxOrLtp (Some x) ltp = (if x \<noteq> 0 then Num x else ofLookup ltp)"
| "stoppxOrLtp None ltp = ofLookup ltp"

definition isBuy :: "Signal \<Rightarrow> bool" where
  "isBuy signal =
     (sg_side signal = Some ''BUY''
      \<or> (sg_side signal \<noteq> Some ''SELL'' \<and> sg_intent signal = Some ''ENTRY''))"

definition isSell :: "Signal \<Rightarrow> bool" where
  "isSell signal =
     (sg_side signal = Some ''SELL''
      \<or> (sg_side signal \<noteq> Some ''BUY'' \<and> sg_intent signal = Some ''EXIT''))"

definition armTrack :: "Track \<Rightarrow> SignalRecord \<Rightarrow> jsnum \<Rightarrow> nat \<Rightarrow> Track" where
  "armTrack st signalRecord thr now =
     st\<lparr>signals := take 50 (signalRecord # signals st),
        threshold := thr,
        lastSignalAtMs := Some now,
        fsmState := (if fsmState st = NOPOSITION \<or> fsmState st = NOPOSITION_BLOCKED
                     then NOPOSITION_SIGNAL else fsmState st)\<rparr>"

definition processWebhookSignal :: "nat \<Rightarrow> Signal \<Rightarrow> Engine \<Rightarrow> Engine" where
  "processWebhookSignal clk signal e =
     (case sg_symbol signal of
        None \<Rightarrow> e
      | Some symbol \<Rightarrow>
          if symbol = [] then e
          else let normalizedSymbol = toUpperCase symbol in
            if \<not> includes_str normalizedSymbol ''BTC'' then e
            else let ltp = ltpBySymbol e normalizedSymbol;
                     signalRecord =
                       \<lparr>sig_intent = (if isBuy signal then ''BUY'' else ''SELL''),
                        sig_stoppx = sg_stoppx signal,
                        sig_ltp = (if truthyNum ltp then ltp else None),
                        sig_receivedAt = clk\<rparr>
                 in if isBuy signal
                    then e\<lparr>longState :=
                             armTrack (longState e) signalRecord
                               (stoppxOrLtp (sg_stoppx signal) ltp) clk\<rparr>
                    else if isSell signal
                    then e\<lparr>shortState :=
                             armTrack (shortState e) signalRecord (ofLookup ltp) clk\<rparr>
                    else e)"

subsection \<open>Daily reset\<close>

text \<open>
  The wall clock of \<^verbatim>\<open>checkDailyReset\<close>. \<open>tz\<close> is \<^verbatim>\<open>getTimezoneOffset()\<close> in minutes.
  The source shifts the instant by \<open>tz\<close> and by 5.5 hours, reads hours and minutes with
  the local getters (which shift back by \<open>tz\<close>) and the date with \<^verbatim>\<open>toISOString\<close> (which
  does not). The date string \<^verbatim>\<open>YYYY-MM-DD\<close> is represented by its day number.
\<close>

definition istOffset :: int where
  "istOffset = 19800000"

definition istHours :: "nat \<Rightarrow> int" where
  "istHours clk = ((int clk + istOffset) div 3600000) mod 24"

definition istMinutes :: "nat \<Rightarrow> int" where
  "istMinutes clk = ((int clk + istOffset) div 60000) mod 60"

definition dateStr :: "int \<Rightarrow> nat \<Rightarrow> int" where
  "dateStr tz clk = (int clk + tz * 60000 + istOffset) div 86400000"

definition resetTrack :: "Track \<Rightarrow> Track" where
  "resetTrack st =
     st\<lparr>fsmState := NOPOSITION,
        threshold := Null,
        currentPeakPnl := None,
        signals := [],
        liveState := (liveState st)
          \<lparr>state := NO_POSITION, cumulativePnl := 0, unrealizedPnl := 0,
           blockedAtMs := None, openTrade := None, pendingPaperTrade := None\<rparr>,
        lastSignalAtMs := None,
        lastBlockedAtMs := None\<rparr>"

definition closeForReset :: "nat \<Rightarrow> direction \<Rightarrow> (string \<rightharpoonup> real) \<Rightarrow> Track \<Rightarrow> Track" where
  "closeForReset clk dir prices st =
     (case paperTrade st of
        None \<Rightarrow> st
      | Some pt \<Rightarrow>
          let ltp = numOr (prices (p_symbol pt)) (p_currentPrice pt)
          in closePaperTrade clk dir st ltp ''Daily Reset'')"

definition performDailyReset :: "nat \<Rightarrow> Engine \<Rightarrow> Engine" where
  "performDailyReset clk e =
     e\<lparr>longState := resetTrack (closeForReset clk LONG (ltpBySymbol e) (longState e)),
       shortState := resetTrack (closeForReset clk SHORT (ltpBySymbol e) (shortState e)),
       fsmBySymbol := Map.empty,
       lastResetTimestamp := clk,
       timers := timers e @ [clk + 5000]\<rparr>"

definition checkDailyReset :: "int \<Rightarrow> nat \<Rightarrow> Engine \<Rightarrow> Engine" where
  "checkDailyReset tz clk e =
     (if istHours clk = 5 \<and> istMinutes clk \<ge> 30 \<and> istMinutes clk < 31
         \<and> lastResetDate e \<noteq> Some (dateStr tz clk)
      then (performDailyReset clk e)\<lparr>lastResetDate := Some (dateStr tz clk)\<rparr>
      else e)"

definition generateAutoSignals :: "nat \<Rightarrow> Engine \<Rightarrow> Engine" where
  "generateAutoSignals clk e =
     (case ltpBySymbol e ''BTCUSDT'' of
        None \<Rightarrow> e
      | Some ltp \<Rightarrow>
          if ltp = 0 then e
          else processWebhookSignal clk
                 \<lparr>sg_symbol = Some ''BTCUSDT'', sg_intent = Some ''ENTRY'',
                  sg_stoppx = Some ltp, sg_side = Some ''SELL''\<rparr>
                 (processWebhookSignal clk
                    \<lparr>sg_symbol = Some ''BTCUSDT'', sg_intent = Some ''ENTRY'',
                     sg_stoppx = Some (ltp - 50), sg_side = Some ''BUY''\<rparr> e))"

subsection \<open>Snapshot aggregation\<close>

definition getCumLivePnl :: "Engine \<Rightarrow> LiveState \<Rightarrow> real" where
  "getCumLivePnl e live =
     foldl (\<lambda>sum t.
              case r_realizedPnl t of
                None \<Rightarrow> sum
              | Some pnl \<Rightarrow>
                  if r_action t = EXIT \<and> truthyMs (r_closedAt t)
                     \<and> (case r_closedAt t of None \<Rightarrow> False
                         | Some c \<Rightarrow> c > lastResetTimestamp e)
                  then sum + pnl else sum)
       0 (trades live)"

subsection \<open>Construction and persistence\<close>

text \<open>
  The state file as \<^verbatim>\<open>saveState\<close> writes it. A slot that \<^verbatim>\<open>loadState\<close> reads with a
  default (\<^verbatim>\<open>|| []\<close>, \<^verbatim>\<open>|| 0\<close>, \<^verbatim>\<open>|| 'NOPOSITION'\<close>) is optional. The open paper
  trade and the open live trade are not part of the file, and neither are the two
  lockout anchors. \<^verbatim>\<open>saveState\<close> writes \<^verbatim>\<open>currentPeakPnl\<close> as \<^verbatim>\<open>null\<close> or a number.
  A missing or unreadable file is \<open>None\<close>.
\<close>

record SavedTrack =
  sv_fsmState :: "fsm option"
  sv_threshold :: jsnum
  sv_paperTrades :: "ClosedPaperTrade list option"
  sv_peakPnlHistory :: "PeakSample list option"
  sv_currentPeakPnl :: "real option"
  sv_signals :: "SignalRecord list option"
  sv_liveStateTrades :: "LiveTradeRow list option"
  sv_liveStateCumulativePnl :: "real option"

record SavedState =
  sv_savedAt :: nat
  sv_lastResetDate :: "int option"
  sv_lastResetTimestamp :: "nat option"
  sv_long :: "SavedTrack option"
  sv_short :: "SavedTrack option"

definition initTrack :: Track where
  "initTrack =
     \<lparr>fsmState = NOPOSITION, threshold = Null, paperTrade = None, paperTrades = [],
      peakPnlHistory = [], currentPeakPnl = None, liveState = createLiveState,
      signals = [], lastSignalAtMs = None, lastBlockedAtMs = None, outbox = []\<rparr>"

definition orElse :: "'a option \<Rightarrow> 'a \<Rightarrow> 'a" where
  "orElse x d = (case x of None \<Rightarrow> d | Some v \<Rightarrow> v)"

definition restoreTrack :: "SavedTrack option \<Rightarrow> Track \<Rightarrow> Track" where
  "restoreTrack saved st =
     (case saved of
        None \<Rightarrow> st
      | Some sv \<Rightarrow>
          st\<lparr>fsmState := orElse (sv_fsmState sv) NOPOSITION,
             threshold := sv_threshold sv,
             paperTrades := orElse (sv_paperTrades sv) [],
             peakPnlHistory := orElse (sv_peakPnlHistory sv) [],
             currentPeakPnl := sv_currentPeakPnl sv,
             signals := orElse (sv_signals sv) [],
             liveState := (liveState st)
               \<lparr>trades := orElse (sv_liveStateTrades sv) [],
                cumulativePnl := orElse (sv_liveStateCumulativePnl sv) 0\<rparr>\<rparr>)"

definition loadState :: "nat \<Rightarrow> SavedState option \<Rightarrow> Engine \<Rightarrow> Engine" where
  "loadState clk file e =
     (case file of
        None \<Rightarrow> e
      | Some sv \<Rightarrow>
          e\<lparr>lastResetDate := sv_lastResetDate sv,
            lastResetTimestamp :=
              msOr (sv_lastResetTimestamp sv) clk,
            longState := restoreTrack (sv_long sv) (longState e),
            shortState := restoreTrack (sv_short sv) (shortState e)\<rparr>)"

definition newEngine :: "nat \<Rightarrow> SavedState option \<Rightarrow> Engine" where
  "newEngine clk file =
     loadState clk file
       \<lparr>longState = initTrack, shortState = initTrack, ltpBySymbol = Map.empty,
        fsmBySymbol = Map.empty, lastResetDate = None, lastResetTimestamp = clk,
        timers = []\<rparr>"

subsection \<open>Specification-level notions used by the properties\<close>

text \<open>
  The live cumulative figure as the specification words it: the sum of the realized PnL
  of the ledger rows that are EXIT rows closed strictly after the last reset. A row without
  a realized PnL has nothing to add.
\<close>

definition rowPnl :: "LiveTradeRow \<Rightarrow> real" where
  "rowPnl t = (case r_realizedPnl t of None \<Rightarrow> 0 | Some pnl \<Rightarrow> pnl)"

definition exitAfterReset :: "nat \<Rightarrow> LiveTradeRow \<Rightarrow> bool" where
  "exitAfterReset lastReset t =
     (r_action t = EXIT \<and> (case r_closedAt t of None \<Rightarrow> False | Some c \<Rightarrow> c > lastReset))"

definition spec_cumLivePnl :: "nat \<Rightarrow> LiveTradeRow list \<Rightarrow> real" where
  "spec_cumLivePnl lastReset rows =
     sum_list (map rowPnl (filter (exitAfterReset lastReset) rows))"

text \<open>
  The invariant of a live sub-track, and the engine states that any sequence of operations
  can produce from a start-up with any state file (or none). The live open and the live
  close are also taken as operations of their own, on either track and with any arguments.
\<close>

definition liveInv :: "LiveState \<Rightarrow> bool" where
  "liveInv l = ((openTrade l \<noteq> None) = (state l = POSITION))"

definition engineLiveInv :: "Engine \<Rightarrow> bool" where
  "engineLiveInv e = (liveInv (liveState (longState e)) \<and> liveInv (liveState (shortState e)))"

inductive reachable :: "Engine \<Rightarrow> bool" where
  startup: "reachable (newEngine clk file)"
| tick: "reachable e \<Longrightarrow> reachable (updateLtp clk symbol price e)"
| signal: "reachable e \<Longrightarrow> reachable (processWebhookSignal clk sg e)"
| resetCheck: "reachable e \<Longrightarrow> reachable (checkDailyReset tz clk e)"
| resetNow: "reachable e \<Longrightarrow> reachable (performDailyReset clk e)"
| autoSignals: "reachable e \<Longrightarrow> reachable (generateAutoSignals clk e)"
| liveOpenLong:
    "reachable e \<Longrightarrow>
     reachable (e\<lparr>longState := openLiveTrade clk dir (longState e) price symbol\<rparr>)"
| liveOpenShort:
    "reachable e \<Longrightarrow>
     reachable (e\<lparr>shortState := openLiveTrade clk dir (shortState e) price symbol\<rparr>)"
| liveCloseLong:
    "reachable e \<Longrightarrow>
     reachable (e\<lparr>longState := closeLiveTrade clk dir (longState e) price reason\<rparr>)"
| liveCloseShort:
    "reachable e \<Longrightarrow>
     reachable (e\<lparr>shortState := closeLiveTrade clk dir (shortState e) price reason\<rparr>)"

text \<open>A BUY signal for BTCUSDT with stop price 100, used to exercise the engine.\<close>

definition buySignal100 :: Signal where
  "buySignal100 =
     \<lparr>sg_symbol = Some ''BTCUSDT'', sg_intent = None, sg_stoppx = Some 100,
      sg_side = Some ''BUY''\<rparr>"

text \<open>
  The realized PnL of a paper trade and of a live trade at an exit price, as
  \<^verbatim>\<open>closePaperTrade\<close> and \<^verbatim>\<open>closeLiveTrade\<close> compute them.
\<close>

definition paperRealized :: "direction \<Rightarrow> PaperTrade \<Rightarrow> real \<Rightarrow> real" where
  "paperRealized dir trade exitPrice =
     (if dir = LONG then (exitPrice - p_entryPrice trade) * p_quantity trade
      else (p_entryPrice trade - exitPrice) * p_quantity trade)"

definition liveRealized :: "direction \<Rightarrow> LiveOpenTrade option \<Rightarrow> real \<Rightarrow> real" where
  "liveRealized dir ot exitPrice =
     (case ot of
        None \<Rightarrow> 0
      | Some t \<Rightarrow>
          if dir = LONG then (exitPrice - o_entryPrice t) * o_quantity t * o_lot t
          else (o_entryPrice t - exitPrice) * o_quantity t * o_lot t)"

text \<open>A LONG track holding a paper trade entered at 100 (quantity 10 / 100).\<close>

definition longTrackAt100 :: Track where
  "longTrackAt100 =
     initTrack
       \<lparr>fsmState := BUYPOSITION, threshold := Num 90,
        paperTrade :=
          Some \<lparr>p_id = PaperId LONG ''BTCUSDT'' 1000, p_symbol = ''BTCUSDT'',
                p_direction = LONG, p_entryPrice = 100, p_currentPrice = 100,
                p_quantity = 1 / 10, p_unrealizedPnl = 0, p_enteredAt = 1000\<rparr>,
        liveState := createLiveState
          \<lparr>pendingPaperTrade :=
             Some \<lparr>pend_entryPrice = 100, pend_quantity = 1 / 10, pend_lot = 1,
                   pend_openedAt = 1000\<rparr>\<rparr>\<rparr>"

text \<open>
  A tick as \<^verbatim>\<open>updateLtp\<close> hands it to a track: the clock reading (which is also the
  argument \<^verbatim>\<open>now\<close>), the symbol and the price. \<open>runTicks\<close> feeds a track a sequence
  of ticks. For a symbol that contains BTC, \<^verbatim>\<open>updateLtp\<close> changes the two tracks
  exactly by \<open>tickTrack LONG\<close> and \<open>tickTrack SHORT\<close> (lemmas \<open>longState_updateLtp\<close>
  and \<open>shortState_updateLtp\<close> below).
\<close>

type_synonym tick = "nat \<times> string \<times> real"

fun tickTrack :: "direction \<Rightarrow> tick \<Rightarrow> Track \<Rightarrow> Track" where
  "tickTrack LONG (clk, symbol, price) st = longTick clk symbol price clk st"
| "tickTrack SHORT (clk, symbol, price) st = shortTick clk symbol price clk st"

fun runTicks :: "direction \<Rightarrow> Track \<Rightarrow> tick list \<Rightarrow> Track" where
  "runTicks dir st [] = st"
| "runTicks dir st (tk # tks) = runTicks dir (tickTrack dir tk st) tks"

text \<open>
  The paper trade of the track is open before the sequence and after each of its ticks.
\<close>

fun openThroughout :: "direction \<Rightarrow> Track \<Rightarrow> tick list \<Rightarrow> bool" where
  "openThroughout dir st [] = (paperTrade st \<noteq> None)"
| "openThroughout dir st (tk # tks) =
     (paperTrade st \<noteq> None \<and> openThroughout dir (tickTrack dir tk st) tks)"

text \<open>The order on the peak slot: \<^verbatim>\<open>null\<close> is below every recorded value.\<close>

fun peakLe :: "real option \<Rightarrow> real option \<Rightarrow> bool" where
  "peakLe None _ = True"
| "peakLe (Some a) None = False"
| "peakLe (Some a) (Some b) = (a \<le> b)"

text \<open>The unrealized PnL of a paper trade at a price, as the tick update computes it.\<close>

definition unrealizedAt :: "direction \<Rightarrow> PaperTrade \<Rightarrow> real \<Rightarrow> real" where
  "unrealizedAt dir pt ltp =
     (if dir = LONG then (ltp - p_entryPrice pt) * p_quantity pt
      else (p_entryPrice pt - ltp) * p_quantity pt)"

text \<open>
  One step of the peak: it does not decrease, and when it changes it becomes the (strictly
  positive) unrealized PnL of the open paper trade.
\<close>

definition peakStep :: "Track \<Rightarrow> Track \<Rightarrow> bool" where
  "peakStep st st' =
     (peakLe (currentPeakPnl st) (currentPeakPnl st')
      \<and> (currentPeakPnl st' = currentPeakPnl st
          \<or> (\<exists>pt'. paperTrade st' = Some pt' \<and> currentPeakPnl st' = Some (p_unrealizedPnl pt')
                \<and> 0 < p_unrealizedPnl pt')))"

text \<open>
  Reading the outbox: the order notifications of one kind, and the live closes (with their
  reason).
\<close>

fun isNotify :: "kind \<Rightarrow> effect \<Rightarrow> bool" where
  "isNotify k (SendLiveSignal k' _ _ _) = (k = k')"
| "isNotify k _ = False"

fun isLiveClose :: "effect \<Rightarrow> bool" where
  "isLiveClose (LogLiveClosed _ _ _ _ _) = True"
| "isLiveClose _ = False"

definition notifications :: "kind \<Rightarrow> effect list \<Rightarrow> effect list" where
  "notifications k ob = filter (isNotify k) ob"

definition liveCloses :: "effect list \<Rightarrow> effect list" where
  "liveCloses ob = filter isLiveClose ob"

text \<open>
  A live lockout is active at a clock reading when \<open>blockedAtMs\<close> is truthy and the
  calendar minute of the anchor has not been left.
\<close>

fun lockoutActive :: "nat \<Rightarrow> nat option \<Rightarrow> bool" where
  "lockoutActive clk None = False"
| "lockoutActive clk (Some b) = (b \<noteq> 0 \<and> \<not> isFirstSecondNextMinute b clk)"

text \<open>The update phase of a tick, by direction.\<close>

fun updatePosition :: "direction \<Rightarrow> tick \<Rightarrow> Track \<Rightarrow> Track" where
  "updatePosition LONG (clk, symbol, price) st = longUpdatePosition clk symbol price st"
| "updatePosition SHORT (clk, symbol, price) st = shortUpdatePosition clk symbol price st"

text \<open>
  Every tick of the sequence finds the paper trade open under the tick's symbol and
  computes a total PnL above the opening threshold.
\<close>

fun positiveTotals :: "direction \<Rightarrow> Track \<Rightarrow> tick list \<Rightarrow> bool" where
  "positiveTotals dir st [] = True"
| "positiveTotals dir st ((clk, symbol, price) # tks) =
     (case paperTrade st of
        None \<Rightarrow> False
      | Some pt \<Rightarrow>
          p_symbol pt = symbol
          \<and> cumulativePnl (liveState st) + unrealizedAt dir pt price > OPEN_THRESHOLD
          \<and> positiveTotals dir (tickTrack dir (clk, symbol, price) st) tks)"

text \<open>The position state of a direction and its breakout condition.\<close>

fun posState :: "direction \<Rightarrow> fsm" where
  "posState LONG = BUYPOSITION"
| "posState SHORT = SELLPOSITION"

fun breakout :: "direction \<Rightarrow> real \<Rightarrow> jsnum \<Rightarrow> bool" where
  "breakout LONG ltp thr = js_gt ltp thr"
| "breakout SHORT ltp thr = js_lt ltp thr"

text \<open>
  The paper invariant of a track: a paper trade is open only in the position state of the
  track's direction.
\<close>

definition paperInv :: "direction \<Rightarrow> Track \<Rightarrow> bool" where
  "paperInv dir st = (paperTrade st = None \<or> fsmState st = posState dir)"

definition enginePaperInv :: "Engine \<Rightarrow> bool" where
  "enginePaperInv e = (paperInv LONG (longState e) \<and> paperInv SHORT (shortState e))"

text \<open>A LONG track blocked at 60000 ms (minute 1) with threshold 100.\<close>

definition blockedLongTrack :: Track where
  "blockedLongTrack =
     initTrack\<lparr>fsmState := NOPOSITION_BLOCKED, threshold := Num 100,
                lastBlockedAtMs := Some 60000\<rparr>"

text \<open>A SELL signal with stop price 50 and a BUY signal with stop price 0.\<close>

definition sellSignal50 :: Signal where
  "sellSignal50 =
     \<lparr>sg_symbol = Some ''BTCUSDT'', sg_intent = None, sg_stoppx = Some 50,
      sg_side = Some ''SELL''\<rparr>"

definition buySignal0 :: Signal where
  "buySignal0 =
     \<lparr>sg_symbol = Some ''BTCUSDT'', sg_intent = None, sg_stoppx = Some 0,
      sg_side = Some ''BUY''\<rparr>"

text \<open>
  A ledger for a reset at 3000 ms: an EXIT closed after it, an ENTRY, an EXIT closed before
  it and an EXIT closed at it.
\<close>

definition ledgerRow :: "kind \<Rightarrow> nat option \<Rightarrow> real option \<Rightarrow> LiveTradeRow" where
  "ledgerRow action closedAt pnl =
     \<lparr>r_id = LiveId LONG ''BTCUSDT'' 0, r_symbol = ''BTCUSDT'', r_action = action,
      r_entryPrice = 100, r_exitPrice = None, r_quantity = 1, r_realizedPnl = pnl,
      r_cumulativePnl = 0, r_closedAt = closedAt\<rparr>"

definition demoLedger :: "LiveTradeRow list" where
  "demoLedger =
     [ledgerRow EXIT (Some 5000) (Some 2), ledgerRow ENTRY None None,
      ledgerRow EXIT (Some 1000) (Some 7), ledgerRow EXIT (Some 3000) (Some 4)]"





section \<open>Verified properties\<close>

subsection \<open>Snapshot aggregation of the live ledger\<close>

lemma cum_fold_acc:
  "foldl (\<lambda>sum t.
              case r_realizedPnl t of
                None \<Rightarrow> sum
              | Some pnl \<Rightarrow>
                  if r_action t = EXIT \<and> truthyMs (r_closedAt t)
                     \<and> (case r_closedAt t of None \<Rightarrow> False | Some c \<Rightarrow> c > lr)
                  then sum + pnl else sum)
       a rows = a + spec_cumLivePnl lr rows"
proof (induction rows arbitrary: a)
  case Nil
  then show ?case by (simp add: spec_cumLivePnl_def)
next
  case (Cons t ts)
  show ?case
    unfolding foldl_Cons Cons.IH
    by (auto simp: spec_cumLivePnl_def rowPnl_def exitAfterReset_def split: option.splits)
qed

text \<open>
  Claim C9. The live cumulative PnL computed for the snapshot is the sum of
  \<open>realizedPnl\<close> over exactly the ledger rows that are EXIT rows with \<open>closedAt\<close>
  strictly greater than \<open>lastResetTimestamp\<close>; every other row (an ENTRY row, an EXIT
  row closed at or before the last reset) contributes nothing.
\<close>

theorem getCumLivePnl_counts_exits_after_reset:
  "getCumLivePnl e live = spec_cumLivePnl (lastResetTimestamp e) (trades live)"
  by (simp add: getCumLivePnl_def cum_fold_acc)

theorem getCumLivePnl_counts_exits_after_reset_witness:
  "lastResetTimestamp (newEngine 3000 None) = 3000
   \<and> getCumLivePnl (newEngine 3000 None) (createLiveState\<lparr>trades := demoLedger\<rparr>) = 2"
proof -
  have l: "lastResetTimestamp (newEngine 3000 None) = 3000"
    by (simp add: newEngine_def loadState_def)
  show ?thesis
    using getCumLivePnl_counts_exits_after_reset
            [of "newEngine 3000 None" "createLiveState\<lparr>trades := demoLedger\<rparr>"] l
    by (simp add: spec_cumLivePnl_def exitAfterReset_def rowPnl_def demoLedger_def
          ledgerRow_def)
qed

subsection \<open>Evaluation rules\<close>

lemmas live_defs = openLiveTrade_def closeLiveTrade_def expireLiveBlock_def protectiveClose_def
  activateLive_def updateLiveUnrealized_def checkLiveTrade_def isFirstSecondNextMinute_def
  OPEN_THRESHOLD_def CLOSE_THRESHOLD_def POSITION_SIZE_def createLiveState_def

lemmas paper_defs = openPaperTrade_def closePaperTrade_def peakUpdate_def

lemmas long_defs = longSafetyCheck_def longUpdatePosition_def longFsmSwitch_def longTick_def

lemmas short_defs = shortSafetyCheck_def shortUpdatePosition_def shortFsmSwitch_def shortTick_def

lemmas str_defs = toUpperCase_def toUpperChar_def

lemma isBtc_BTCUSDT: "includes_str (toUpperCase ''BTCUSDT'') ''BTC''"
  by (simp add: str_defs)

subsection \<open>The live sub-track invariant\<close>

lemma liveInv_openLiveTrade:
  "liveInv (liveState st) \<Longrightarrow> liveInv (liveState (openLiveTrade clk dir st p symbol))"
  by (auto simp: openLiveTrade_def liveInv_def Let_def split: option.splits)

lemma liveInv_closeLiveTrade:
  "liveInv (liveState st) \<Longrightarrow> liveInv (liveState (closeLiveTrade clk dir st p reason))"
  by (auto simp: closeLiveTrade_def liveInv_def Let_def split: option.splits)

lemma liveInv_expireLiveBlock:
  "liveInv (liveState st) \<Longrightarrow> liveInv (liveState (expireLiveBlock clk st))"
  by (auto simp: expireLiveBlock_def liveInv_def split: option.splits)

lemma liveInv_protectiveClose:
  "liveInv (liveState st) \<Longrightarrow> liveInv (liveState (protectiveClose clk dir st tot p))"
  using liveInv_closeLiveTrade [of st clk dir p "''Protective''"]
  by (auto simp: protectiveClose_def liveInv_def Let_def)

lemma liveInv_activateLive:
  "liveInv (liveState st) \<Longrightarrow> liveInv (liveState (activateLive clk dir st tot p symbol))"
  by (simp add: activateLive_def liveInv_openLiveTrade)

lemma liveInv_updateLiveUnrealized:
  "liveInv (liveState st) \<Longrightarrow> liveInv (liveState (updateLiveUnrealized dir st p))"
  by (auto simp: updateLiveUnrealized_def liveInv_def split: option.splits)

lemma liveInv_checkLiveTrade:
  "liveInv (liveState st) \<Longrightarrow> liveInv (liveState (checkLiveTrade clk dir st tot p symbol))"
  unfolding checkLiveTrade_def
  by (intro liveInv_updateLiveUnrealized liveInv_activateLive liveInv_protectiveClose
        liveInv_expireLiveBlock)

lemma liveInv_openPaperTrade:
  "liveInv (liveState st) \<Longrightarrow> liveInv (liveState (openPaperTrade clk dir st symbol p))"
  by (auto simp: openPaperTrade_def liveInv_def Let_def split: option.splits)

lemma liveInv_closePaperTrade:
  "liveInv (liveState st) \<Longrightarrow> liveInv (liveState (closePaperTrade clk dir st p reason))"
  by (auto simp: closePaperTrade_def closeLiveTrade_def liveInv_def Let_def split: option.splits)

lemma liveInv_longSafetyCheck:
  "liveInv (liveState st) \<Longrightarrow> liveInv (liveState (longSafetyCheck st))"
  by (simp add: longSafetyCheck_def)

lemma liveInv_longUpdatePosition:
  "liveInv (liveState st) \<Longrightarrow> liveInv (liveState (longUpdatePosition clk symbol ltp st))"
  unfolding longUpdatePosition_def Let_def
  by (auto split: option.splits intro!: liveInv_checkLiveTrade)

lemma liveInv_longFsmSwitch:
  "liveInv (liveState st) \<Longrightarrow> liveInv (liveState (longFsmSwitch clk symbol ltp now st))"
  unfolding longFsmSwitch_def
  by (auto split: fsm.splits option.splits intro!: liveInv_openPaperTrade liveInv_closePaperTrade)

lemma liveInv_longTick:
  "liveInv (liveState st) \<Longrightarrow> liveInv (liveState (longTick clk symbol ltp now st))"
  unfolding longTick_def Let_def
  by (auto intro!: liveInv_longFsmSwitch liveInv_longUpdatePosition liveInv_longSafetyCheck)

lemma longState_processLongTickTransition:
  "longState (processLongTickTransition clk symbol ltp now e) = longTick clk symbol ltp now (longState e)"
  by (simp add: processLongTickTransition_def longTick_def Let_def)

lemma shortState_processLongTickTransition:
  "shortState (processLongTickTransition clk symbol ltp now e) = shortState e"
  by (simp add: processLongTickTransition_def Let_def)

lemma liveInv_shortSafetyCheck:
  "liveInv (liveState st) \<Longrightarrow> liveInv (liveState (shortSafetyCheck st))"
  by (simp add: shortSafetyCheck_def)

lemma liveInv_shortUpdatePosition:
  "liveInv (liveState st) \<Longrightarrow> liveInv (liveState (shortUpdatePosition clk symbol ltp st))"
  unfolding shortUpdatePosition_def Let_def
  by (auto split: option.splits intro!: liveInv_checkLiveTrade)

lemma liveInv_shortFsmSwitch:
  "liveInv (liveState st) \<Longrightarrow> liveInv (liveState (shortFsmSwitch clk symbol ltp now st))"
  unfolding shortFsmSwitch_def
  by (auto split: fsm.splits option.splits intro!: liveInv_openPaperTrade liveInv_closePaperTrade)

lemma liveInv_shortTick:
  "liveInv (liveState st) \<Longrightarrow> liveInv (liveState (shortTick clk symbol ltp now st))"
  unfolding shortTick_def Let_def
  by (auto intro!: liveInv_shortFsmSwitch liveInv_shortUpdatePosition liveInv_shortSafetyCheck)

lemma shortState_processShortTickTransition:
  "shortState (processShortTickTransition clk symbol ltp now e) = shortTick clk symbol ltp now (shortState e)"
  by (simp add: processShortTickTransition_def shortTick_def Let_def)

lemma longState_processShortTickTransition:
  "longState (processShortTickTransition clk symbol ltp now e) = longState e"
  by (simp add: processShortTickTransition_def Let_def)

lemma longState_updateLtp:
  "longState (updateLtp clk symbol price e) =
     (if includes_str (toUpperCase symbol) ''BTC''
      then longTick clk symbol price clk (longState e) else longState e)"
  by (simp add: updateLtp_def Let_def longState_processShortTickTransition
        longState_processLongTickTransition)

lemma shortState_updateLtp:
  "shortState (updateLtp clk symbol price e) =
     (if includes_str (toUpperCase symbol) ''BTC''
      then shortTick clk symbol price clk (shortState e) else shortState e)"
  by (simp add: updateLtp_def Let_def shortState_processShortTickTransition
        shortState_processLongTickTransition)

lemma engineLiveInv_updateLtp:
  "engineLiveInv e \<Longrightarrow> engineLiveInv (updateLtp clk symbol price e)"
  by (simp add: engineLiveInv_def longState_updateLtp shortState_updateLtp
        liveInv_longTick liveInv_shortTick)

lemma liveState_armTrack: "liveState (armTrack st r thr now) = liveState st"
  by (simp add: armTrack_def)

lemma engineLiveInv_processWebhookSignal:
  "engineLiveInv e \<Longrightarrow> engineLiveInv (processWebhookSignal clk sg e)"
  by (auto simp: engineLiveInv_def processWebhookSignal_def Let_def liveState_armTrack
        split: option.splits)

lemma engineLiveInv_generateAutoSignals:
  "engineLiveInv e \<Longrightarrow> engineLiveInv (generateAutoSignals clk e)"
  by (auto simp: generateAutoSignals_def engineLiveInv_processWebhookSignal split: option.splits)

lemma liveInv_resetTrack: "liveInv (liveState (resetTrack st))"
  by (simp add: resetTrack_def liveInv_def)

lemma engineLiveInv_performDailyReset: "engineLiveInv (performDailyReset clk e)"
  by (simp add: engineLiveInv_def performDailyReset_def liveInv_resetTrack)

lemma engineLiveInv_checkDailyReset:
  "engineLiveInv e \<Longrightarrow> engineLiveInv (checkDailyReset tz clk e)"
  using engineLiveInv_performDailyReset [of clk e]
  by (simp add: checkDailyReset_def engineLiveInv_def)

lemma liveInv_restoreTrack:
  "liveInv (liveState st) \<Longrightarrow> liveInv (liveState (restoreTrack saved st))"
  by (auto simp: restoreTrack_def liveInv_def split: option.splits)

lemma liveInv_initTrack: "liveInv (liveState initTrack)"
  by (simp add: initTrack_def createLiveState_def liveInv_def)

lemma engineLiveInv_newEngine: "engineLiveInv (newEngine clk file)"
  by (auto simp: newEngine_def loadState_def engineLiveInv_def liveInv_restoreTrack
        liveInv_initTrack split: option.splits)

text \<open>
  Claim C8. For the live sub-track of each track, the invariant "\<open>openTrade\<close> is present
  iff \<open>state = POSITION\<close>" holds at start-up (state restore included) and is preserved
  by every operation: tick processing, signal ingestion, live open, live close and the
  daily reset.
\<close>

theorem live_openTrade_iff_position:
  "reachable e \<Longrightarrow> engineLiveInv e"
proof (induction rule: reachable.induct)
  case (startup clk saved)
  show ?case by (rule engineLiveInv_newEngine)
next
  case (tick e clk symbol price)
  then show ?case by (simp add: engineLiveInv_updateLtp)
next
  case (signal e clk sg)
  then show ?case by (simp add: engineLiveInv_processWebhookSignal)
next
  case (resetCheck e tz clk)
  then show ?case by (simp add: engineLiveInv_checkDailyReset)
next
  case (resetNow e clk)
  show ?case by (rule engineLiveInv_performDailyReset)
next
  case (autoSignals e clk)
  then show ?case by (simp add: engineLiveInv_generateAutoSignals)
next
  case (liveOpenLong e clk dir price symbol)
  then show ?case by (simp add: engineLiveInv_def liveInv_openLiveTrade)
next
  case (liveOpenShort e clk dir price symbol)
  then show ?case by (simp add: engineLiveInv_def liveInv_openLiveTrade)
next
  case (liveCloseLong e clk dir price reason)
  then show ?case by (simp add: engineLiveInv_def liveInv_closeLiveTrade)
next
  case (liveCloseShort e clk dir price reason)
  then show ?case by (simp add: engineLiveInv_def liveInv_closeLiveTrade)
qed


lemma buySignal100_arms_long: "longState (processWebhookSignal 1000 buySignal100 (newEngine 1000 None)) =
   initTrack\<lparr>signals := [\<lparr>sig_intent = ''BUY'', sig_stoppx = Some 100, sig_ltp = None, sig_receivedAt = 1000\<rparr>],
     threshold := Num 100, lastSignalAtMs := Some 1000, fsmState := NOPOSITION_SIGNAL\<rparr>"
  by (simp add: processWebhookSignal_def buySignal100_def isBtc_BTCUSDT newEngine_def loadState_def
     armTrack_def isBuy_def initTrack_def Let_def)

lemma promoted_after_two_ticks: "state (liveState (longState
   (updateLtp 3000 ''BTCUSDT'' 102 (updateLtp 2000 ''BTCUSDT'' 101 
    (processWebhookSignal 1000 buySignal100 (newEngine 1000 None)))))) = POSITION"
  by (simp add: longState_updateLtp isBtc_BTCUSDT buySignal100_arms_long initTrack_def long_defs live_defs paper_defs Let_def)

theorem live_openTrade_iff_position_witness:
  "reachable (updateLtp 3000 ''BTCUSDT'' 102 (updateLtp 2000 ''BTCUSDT'' 101 
    (processWebhookSignal 1000 buySignal100 (newEngine 1000 None))))
   \<and> engineLiveInv (updateLtp 3000 ''BTCUSDT'' 102 (updateLtp 2000 ''BTCUSDT'' 101 
    (processWebhookSignal 1000 buySignal100 (newEngine 1000 None))))
   \<and> state (liveState (longState
   (updateLtp 3000 ''BTCUSDT'' 102 (updateLtp 2000 ''BTCUSDT'' 101 
    (processWebhookSignal 1000 buySignal100 (newEngine 1000 None)))))) = POSITION"
proof -
  have r: "reachable (updateLtp 3000 ''BTCUSDT'' 102 (updateLtp 2000 ''BTCUSDT'' 101 
    (processWebhookSignal 1000 buySignal100 (newEngine 1000 None))))"
    by (intro reachable.tick reachable.signal reachable.startup)
  show ?thesis using r live_openTrade_iff_position [OF r] promoted_after_two_ticks by simp
qed

subsection \<open>What closing a paper trade records\<close>


lemma closePaperTrade_paperTrades:
  "paperTrade st = Some trade \<Longrightarrow>
   paperTrades (closePaperTrade clk dir st exitPrice reason) =
     \<lparr>c_trade = trade, c_exitPrice = exitPrice,
      c_realizedPnl = paperRealized dir trade exitPrice,
      c_reason = reason, c_closedAt = clk\<rparr> # paperTrades st"
  by (auto simp: closePaperTrade_def closeLiveTrade_def paperRealized_def Let_def
        split: option.splits)

subsection \<open>What the live check leaves alone\<close>

lemma openLiveTrade_frame [simp]:
  "fsmState (openLiveTrade clk dir st p symbol) = fsmState st"
  "threshold (openLiveTrade clk dir st p symbol) = threshold st"
  "paperTrade (openLiveTrade clk dir st p symbol) = paperTrade st"
  "paperTrades (openLiveTrade clk dir st p symbol) = paperTrades st"
  "peakPnlHistory (openLiveTrade clk dir st p symbol) = peakPnlHistory st"
  "currentPeakPnl (openLiveTrade clk dir st p symbol) = currentPeakPnl st"
  "signals (openLiveTrade clk dir st p symbol) = signals st"
  "lastSignalAtMs (openLiveTrade clk dir st p symbol) = lastSignalAtMs st"
  "lastBlockedAtMs (openLiveTrade clk dir st p symbol) = lastBlockedAtMs st"
  by (simp_all add: openLiveTrade_def Let_def split: option.splits)

lemma closeLiveTrade_frame [simp]:
  "fsmState (closeLiveTrade clk dir st p reason) = fsmState st"
  "threshold (closeLiveTrade clk dir st p reason) = threshold st"
  "paperTrade (closeLiveTrade clk dir st p reason) = paperTrade st"
  "paperTrades (closeLiveTrade clk dir st p reason) = paperTrades st"
  "peakPnlHistory (closeLiveTrade clk dir st p reason) = peakPnlHistory st"
  "currentPeakPnl (closeLiveTrade clk dir st p reason) = currentPeakPnl st"
  "signals (closeLiveTrade clk dir st p reason) = signals st"
  "lastSignalAtMs (closeLiveTrade clk dir st p reason) = lastSignalAtMs st"
  "lastBlockedAtMs (closeLiveTrade clk dir st p reason) = lastBlockedAtMs st"
  by (simp_all add: closeLiveTrade_def Let_def split: option.splits)

lemma expireLiveBlock_frame [simp]:
  "fsmState (expireLiveBlock clk st) = fsmState st"
  "threshold (expireLiveBlock clk st) = threshold st"
  "paperTrade (expireLiveBlock clk st) = paperTrade st"
  "paperTrades (expireLiveBlock clk st) = paperTrades st"
  "peakPnlHistory (expireLiveBlock clk st) = peakPnlHistory st"
  "currentPeakPnl (expireLiveBlock clk st) = currentPeakPnl st"
  "signals (expireLiveBlock clk st) = signals st"
  "lastSignalAtMs (expireLiveBlock clk st) = lastSignalAtMs st"
  "lastBlockedAtMs (expireLiveBlock clk st) = lastBlockedAtMs st"
  by (simp_all add: expireLiveBlock_def split: option.splits)

lemma protectiveClose_frame [simp]:
  "fsmState (protectiveClose clk dir st tot p) = fsmState st"
  "threshold (protectiveClose clk dir st tot p) = threshold st"
  "paperTrade (protectiveClose clk dir st tot p) = paperTrade st"
  "paperTrades (protectiveClose clk dir st tot p) = paperTrades st"
  "peakPnlHistory (protectiveClose clk dir st tot p) = peakPnlHistory st"
  "currentPeakPnl (protectiveClose clk dir st tot p) = currentPeakPnl st"
  "signals (protectiveClose clk dir st tot p) = signals st"
  "lastSignalAtMs (protectiveClose clk dir st tot p) = lastSignalAtMs st"
  "lastBlockedAtMs (protectiveClose clk dir st tot p) = lastBlockedAtMs st"
  by (simp_all add: protectiveClose_def Let_def)

lemma activateLive_frame [simp]:
  "fsmState (activateLive clk dir st tot p symbol) = fsmState st"
  "threshold (activateLive clk dir st tot p symbol) = threshold st"
  "paperTrade (activateLive clk dir st tot p symbol) = paperTrade st"
  "paperTrades (activateLive clk dir st tot p symbol) = paperTrades st"
  "peakPnlHistory (activateLive clk dir st tot p symbol) = peakPnlHistory st"
  "currentPeakPnl (activateLive clk dir st tot p symbol) = currentPeakPnl st"
  "signals (activateLive clk dir st tot p symbol) = signals st"
  "lastSignalAtMs (activateLive clk dir st tot p symbol) = lastSignalAtMs st"
  "lastBlockedAtMs (activateLive clk dir st tot p symbol) = lastBlockedAtMs st"
  by (simp_all add: activateLive_def)

lemma updateLiveUnrealized_frame [simp]:
  "fsmState (updateLiveUnrealized dir st p) = fsmState st"
  "threshold (updateLiveUnrealized dir st p) = threshold st"
  "paperTrade (updateLiveUnrealized dir st p) = paperTrade st"
  "paperTrades (updateLiveUnrealized dir st p) = paperTrades st"
  "peakPnlHistory (updateLiveUnrealized dir st p) = peakPnlHistory st"
  "currentPeakPnl (updateLiveUnrealized dir st p) = currentPeakPnl st"
  "signals (updateLiveUnrealized dir st p) = signals st"
  "lastSignalAtMs (updateLiveUnrealized dir st p) = lastSignalAtMs st"
  "lastBlockedAtMs (updateLiveUnrealized dir st p) = lastBlockedAtMs st"
  by (simp_all add: updateLiveUnrealized_def split: option.splits)

lemma checkLiveTrade_frame [simp]:
  "fsmState (checkLiveTrade clk dir st tot p symbol) = fsmState st"
  "threshold (checkLiveTrade clk dir st tot p symbol) = threshold st"
  "paperTrade (checkLiveTrade clk dir st tot p symbol) = paperTrade st"
  "paperTrades (checkLiveTrade clk dir st tot p symbol) = paperTrades st"
  "peakPnlHistory (checkLiveTrade clk dir st tot p symbol) = peakPnlHistory st"
  "currentPeakPnl (checkLiveTrade clk dir st tot p symbol) = currentPeakPnl st"
  "signals (checkLiveTrade clk dir st tot p symbol) = signals st"
  "lastSignalAtMs (checkLiveTrade clk dir st tot p symbol) = lastSignalAtMs st"
  "lastBlockedAtMs (checkLiveTrade clk dir st tot p symbol) = lastBlockedAtMs st"
  by (simp_all add: checkLiveTrade_def)


subsection \<open>Peak tracking\<close>

lemma peakLe_refl: "peakLe a a" by (cases a) auto
lemma peakLe_trans: "peakLe a b \<Longrightarrow> peakLe b c \<Longrightarrow> peakLe a c"
  by (cases a; cases b; cases c) auto

lemma peakLe_peakUpdate: "peakLe pk (peakUpdate x pk)"
  by (cases pk) (auto simp: peakUpdate_def)

lemma closePaperTrade_peak:
  "currentPeakPnl (closePaperTrade clk dir st x reason) =
     (if paperTrade st = None then currentPeakPnl st else None)"
  "paperTrade (closePaperTrade clk dir st x reason) = None"
  by (auto simp: closePaperTrade_def Let_def split: option.splits)

lemma openPaperTrade_peak [simp]:
  "currentPeakPnl (openPaperTrade clk dir st symbol p) = currentPeakPnl st"
  by (simp add: openPaperTrade_def Let_def split: option.splits)

lemma openPaperTrade_keeps_open:
  "paperTrade st = Some pt \<Longrightarrow> openPaperTrade clk dir st symbol p = st"
  by (simp add: openPaperTrade_def)

lemma longUpdatePosition_peak:
  "currentPeakPnl (longUpdatePosition clk symbol ltp st) =
    (case paperTrade st of None \<Rightarrow> currentPeakPnl st
     | Some pt \<Rightarrow> if p_symbol pt = symbol then peakUpdate (unrealizedAt LONG pt ltp) (currentPeakPnl st)
         else currentPeakPnl st)"
  "paperTrade (longUpdatePosition clk symbol ltp st) =
    (case paperTrade st of None \<Rightarrow> None
     | Some pt \<Rightarrow> if p_symbol pt = symbol then Some (pt\<lparr>p_currentPrice := ltp, p_unrealizedPnl := unrealizedAt LONG pt ltp\<rparr>)
         else Some pt)"
  by (simp_all add: longUpdatePosition_def Let_def unrealizedAt_def split: option.splits)

lemma longFsmSwitch_open:
  "paperTrade st = Some pt \<Longrightarrow> paperTrade (longFsmSwitch clk symbol ltp now st) \<noteq> None \<Longrightarrow>
   currentPeakPnl (longFsmSwitch clk symbol ltp now st) = currentPeakPnl st
   \<and> paperTrade (longFsmSwitch clk symbol ltp now st) = Some pt"
  by (auto simp: longFsmSwitch_def closePaperTrade_peak openPaperTrade_keeps_open split: fsm.splits option.splits if_splits)


lemma shortUpdatePosition_peak:
  "currentPeakPnl (shortUpdatePosition clk symbol ltp st) =
    (case paperTrade st of None \<Rightarrow> currentPeakPnl st
     | Some pt \<Rightarrow> if p_symbol pt = symbol then peakUpdate (unrealizedAt SHORT pt ltp) (currentPeakPnl st)
         else currentPeakPnl st)"
  "paperTrade (shortUpdatePosition clk symbol ltp st) =
    (case paperTrade st of None \<Rightarrow> None
     | Some pt \<Rightarrow> if p_symbol pt = symbol then Some (pt\<lparr>p_currentPrice := ltp, p_unrealizedPnl := unrealizedAt SHORT pt ltp\<rparr>)
         else Some pt)"
  by (simp_all add: shortUpdatePosition_def Let_def unrealizedAt_def split: option.splits)

lemma shortFsmSwitch_open:
  "paperTrade st = Some pt \<Longrightarrow> paperTrade (shortFsmSwitch clk symbol ltp now st) \<noteq> None \<Longrightarrow>
   currentPeakPnl (shortFsmSwitch clk symbol ltp now st) = currentPeakPnl st
   \<and> paperTrade (shortFsmSwitch clk symbol ltp now st) = Some pt"
  by (auto simp: shortFsmSwitch_def closePaperTrade_peak openPaperTrade_keeps_open split: fsm.splits option.splits if_splits)

lemma peakUpdate_cases:
  "peakUpdate x pk = pk \<or> (peakUpdate x pk = Some x \<and> 0 < x)"
  by (auto simp: peakUpdate_def)

lemma longTick_peakStep:
  assumes "paperTrade st = Some pt" and "paperTrade (longTick clk symbol ltp now st) \<noteq> None"
  shows "peakStep st (longTick clk symbol ltp now st)"
proof -
  define st1 where "st1 = longUpdatePosition clk symbol ltp st"
  have safety: "longSafetyCheck st = st" using assms(1) by (simp add: longSafetyCheck_def)
  obtain pt1 where pt1: "paperTrade st1 = Some pt1"
    using assms(1) by (cases "p_symbol pt = symbol") (simp_all add: st1_def longUpdatePosition_peak)
  have step1: "peakStep st st1"
    using assms(1) peakUpdate_cases [of "unrealizedAt LONG pt ltp" "currentPeakPnl st"]
    by (auto simp: peakStep_def st1_def longUpdatePosition_peak peakLe_peakUpdate peakLe_refl)
  show ?thesis
  proof (cases "threshold st1 = Null")
    case True
    then show ?thesis using step1 by (simp add: longTick_def safety st1_def Let_def)
  next
    case False
    then have eq: "longTick clk symbol ltp now st = longFsmSwitch clk symbol ltp now st1"
      by (simp add: longTick_def safety st1_def Let_def)
    from longFsmSwitch_open [OF pt1, of clk symbol ltp now] assms(2) eq
    have "currentPeakPnl (longFsmSwitch clk symbol ltp now st1) = currentPeakPnl st1"
      "paperTrade (longFsmSwitch clk symbol ltp now st1) = paperTrade st1"
      by (simp_all add: pt1)
    then show ?thesis using step1 by (simp add: eq peakStep_def)
  qed
qed

lemma shortTick_peakStep:
  assumes "paperTrade st = Some pt" and "paperTrade (shortTick clk symbol ltp now st) \<noteq> None"
  shows "peakStep st (shortTick clk symbol ltp now st)"
proof -
  define st1 where "st1 = shortUpdatePosition clk symbol ltp st"
  have safety: "shortSafetyCheck st = st" using assms(1) by (simp add: shortSafetyCheck_def)
  obtain pt1 where pt1: "paperTrade st1 = Some pt1"
    using assms(1) by (cases "p_symbol pt = symbol") (simp_all add: st1_def shortUpdatePosition_peak)
  have step1: "peakStep st st1"
    using assms(1) peakUpdate_cases [of "unrealizedAt SHORT pt ltp" "currentPeakPnl st"]
    by (auto simp: peakStep_def st1_def shortUpdatePosition_peak peakLe_peakUpdate peakLe_refl)
  show ?thesis
  proof (cases "threshold st1 = Null")
    case True
    then show ?thesis using step1 by (simp add: shortTick_def safety st1_def Let_def)
  next
    case False
    then have eq: "shortTick clk symbol ltp now st = shortFsmSwitch clk symbol ltp now st1"
      by (simp add: shortTick_def safety st1_def Let_def)
    from shortFsmSwitch_open [OF pt1, of clk symbol ltp now] assms(2) eq
    have "currentPeakPnl (shortFsmSwitch clk symbol ltp now st1) = currentPeakPnl st1"
      "paperTrade (shortFsmSwitch clk symbol ltp now st1) = paperTrade st1"
      by (simp_all add: pt1)
    then show ?thesis using step1 by (simp add: eq peakStep_def)
  qed
qed

lemma tickTrack_peakStep:
  assumes "paperTrade st \<noteq> None" and "paperTrade (tickTrack dir tk st) \<noteq> None"
  shows "peakStep st (tickTrack dir tk st)"
proof -
  obtain clk symbol ltp where tk: "tk = (clk, symbol, ltp)" by (cases tk) auto
  obtain pt where pt: "paperTrade st = Some pt" using assms(1) by auto
  show ?thesis
    using assms(2) longTick_peakStep [OF pt, of clk symbol ltp clk]
      shortTick_peakStep [OF pt, of clk symbol ltp clk]
    by (cases dir) (simp_all add: tk)
qed

lemma openThroughout_head: "openThroughout dir st tks \<Longrightarrow> paperTrade st \<noteq> None"
  by (cases tks) auto

lemma runTicks_peak_mono:
  "openThroughout dir st tks \<Longrightarrow> peakLe (currentPeakPnl st) (currentPeakPnl (runTicks dir st tks))"
proof (induction tks arbitrary: st)
  case Nil
  show ?case by (simp add: peakLe_refl)
next
  case (Cons tk tks)
  from Cons.prems have o1: "paperTrade st \<noteq> None" and o2: "openThroughout dir (tickTrack dir tk st) tks"
    by simp_all
  from o2 have o3: "paperTrade (tickTrack dir tk st) \<noteq> None" by (rule openThroughout_head)
  have "peakLe (currentPeakPnl st) (currentPeakPnl (tickTrack dir tk st))"
    using tickTrack_peakStep [OF o1 o3] by (simp add: peakStep_def)
  moreover have "peakLe (currentPeakPnl (tickTrack dir tk st)) (currentPeakPnl (runTicks dir st (tk # tks)))"
    using Cons.IH [OF o2] by simp
  ultimately show ?case by (rule peakLe_trans)
qed

lemma closePaperTrade_archives_peak:
  "paperTrade st = Some trade \<Longrightarrow>
   peakPnlHistory (closePaperTrade clk dir st x reason) =
     (case currentPeakPnl st of
        None \<Rightarrow> peakPnlHistory st
      | Some pk \<Rightarrow> if 0 < pk then \<lparr>pk_pnl = pk, pk_timestamp = clk\<rparr> # peakPnlHistory st
                   else peakPnlHistory st)
   \<and> currentPeakPnl (closePaperTrade clk dir st x reason) = None"
  by (auto simp: closePaperTrade_def Let_def split: option.splits)

text \<open>
  Claim C6. For every tick sequence during which the paper trade stays open,
  \<open>currentPeakPnl\<close> never decreases, and a tick changes it only to the strictly positive
  unrealized PnL of the open trade; when the trade is closed, the peak is put on
  \<open>peakPnlHistory\<close> exactly when it is positive, and \<open>currentPeakPnl\<close> is cleared.
\<close>

theorem currentPeakPnl_monotone_positive_archived:
  "(openThroughout dir st tks \<longrightarrow>
      peakLe (currentPeakPnl st) (currentPeakPnl (runTicks dir st tks)))
   \<and> (paperTrade st \<noteq> None \<and> paperTrade (tickTrack dir tk st) \<noteq> None \<longrightarrow>
        peakStep st (tickTrack dir tk st))
   \<and> (paperTrade st = Some trade \<longrightarrow>
        peakPnlHistory (closePaperTrade clk dir st x reason) =
          (case currentPeakPnl st of
             None \<Rightarrow> peakPnlHistory st
           | Some pk \<Rightarrow> if 0 < pk then \<lparr>pk_pnl = pk, pk_timestamp = clk\<rparr> # peakPnlHistory st
                        else peakPnlHistory st)
        \<and> currentPeakPnl (closePaperTrade clk dir st x reason) = None)"
  using runTicks_peak_mono [of dir st tks] tickTrack_peakStep [of st dir tk]
    closePaperTrade_archives_peak [of st trade clk dir x reason]
  by blast


theorem currentPeakPnl_monotone_positive_archived_witness:
  "openThroughout LONG longTrackAt100 [(2000, ''BTCUSDT'', 105), (3000, ''BTCUSDT'', 102)]
   \<and> currentPeakPnl longTrackAt100 = None
   \<and> currentPeakPnl (tickTrack LONG (2000, ''BTCUSDT'', 105) longTrackAt100) = Some (1 / 2)
   \<and> currentPeakPnl
        (runTicks LONG longTrackAt100 [(2000, ''BTCUSDT'', 105), (3000, ''BTCUSDT'', 102)])
      = Some (1 / 2)
   \<and> peakPnlHistory (closePaperTrade 4000 LONG
        (runTicks LONG longTrackAt100 [(2000, ''BTCUSDT'', 105), (3000, ''BTCUSDT'', 102)])
        102 ''Daily Reset'') = [\<lparr>pk_pnl = 1 / 2, pk_timestamp = 4000\<rparr>]
   \<and> currentPeakPnl (closePaperTrade 4000 LONG
        (runTicks LONG longTrackAt100 [(2000, ''BTCUSDT'', 105), (3000, ''BTCUSDT'', 102)])
        102 ''Daily Reset'') = None"
proof -
  let ?tks = "[(2000, ''BTCUSDT'', 105), (3000, ''BTCUSDT'', 102)] :: tick list"
  let ?r = "runTicks LONG longTrackAt100 ?tks"
  have p0: "paperTrade longTrackAt100 \<noteq> None" "currentPeakPnl longTrackAt100 = None"
    by (simp_all add: longTrackAt100_def initTrack_def)
  have p1: "paperTrade (tickTrack LONG (2000, ''BTCUSDT'', 105) longTrackAt100) \<noteq> None"
    "currentPeakPnl (tickTrack LONG (2000, ''BTCUSDT'', 105) longTrackAt100) = Some (1 / 2)"
    by (simp_all add: longTrackAt100_def initTrack_def long_defs live_defs paper_defs Let_def)
  have p2: "paperTrade ?r \<noteq> None" "currentPeakPnl ?r = Some (1 / 2)" "peakPnlHistory ?r = []"
    by (simp_all add: longTrackAt100_def initTrack_def long_defs live_defs paper_defs Let_def)
  have o: "openThroughout LONG longTrackAt100 ?tks"
    using p0 p1 p2 by simp
  obtain trade where tr: "paperTrade ?r = Some trade" using p2(1) by blast
  show ?thesis
    using o p0 p1 p2
      currentPeakPnl_monotone_positive_archived
        [of LONG longTrackAt100 ?tks "(2000, ''BTCUSDT'', 105)" trade 0 0 "''x''"]
      currentPeakPnl_monotone_positive_archived
        [of LONG ?r "[]" "(2000, ''BTCUSDT'', 105)" trade 4000 102 "''Daily Reset''"] tr
    by simp
qed

lemmas eval_defs = longTrackAt100_def initTrack_def long_defs live_defs paper_defs Let_def
  unrealizedAt_def notifications_def liveCloses_def liveRealized_def

subsection \<open>Protective close of the live trade\<close>

lemma checkLiveTrade_protective:
  assumes "state (liveState s) = POSITION" and "openTrade (liveState s) = Some ot"
    and "tot \<le> CLOSE_THRESHOLD"
  shows "outbox (checkLiveTrade clk dir s tot p symbol) =
           outbox s @ [LogLiveClosed dir ''Protective'' (o_symbol ot) p (liveRealized dir (Some ot) p),
                       SendLiveSignal EXIT (o_symbol ot) p dir]"
    and "blockedAtMs (liveState (checkLiveTrade clk dir s tot p symbol)) = Some clk"
    and "state (liveState (checkLiveTrade clk dir s tot p symbol)) = NO_POSITION"
    and "openTrade (liveState (checkLiveTrade clk dir s tot p symbol)) = None"
    and "trades (liveState (checkLiveTrade clk dir s tot p symbol)) =
           take 50 (\<lparr>r_id = ExitOf (o_id ot), r_symbol = o_symbol ot, r_action = EXIT,
                      r_entryPrice = o_entryPrice ot, r_exitPrice = Some p,
                      r_quantity = o_quantity ot,
                      r_realizedPnl = Some (liveRealized dir (Some ot) p),
                      r_cumulativePnl = cumulativePnl (liveState s) + liveRealized dir (Some ot) p,
                      r_closedAt = Some clk\<rparr> # trades (liveState s))"
  using assms
  by (simp_all add: live_defs liveRealized_def Let_def split: option.splits)


lemma closePaperTrade_no_live:
  assumes "openTrade (liveState s) = None"
  shows "blockedAtMs (liveState (closePaperTrade clk dir s x reason)) = blockedAtMs (liveState s)"
    and "state (liveState (closePaperTrade clk dir s x reason)) = state (liveState s)"
    and "openTrade (liveState (closePaperTrade clk dir s x reason)) = None"
    and "trades (liveState (closePaperTrade clk dir s x reason)) = trades (liveState s)"
    and "notifications k (outbox (closePaperTrade clk dir s x reason)) = notifications k (outbox s)"
    and "liveCloses (outbox (closePaperTrade clk dir s x reason)) = liveCloses (outbox s)"
  using assms
  by (simp_all add: closePaperTrade_def Let_def notifications_def liveCloses_def
        split: option.splits)

lemma openPaperTrade_live:
  "blockedAtMs (liveState (openPaperTrade clk dir s symbol p)) = blockedAtMs (liveState s)"
  "state (liveState (openPaperTrade clk dir s symbol p)) = state (liveState s)"
  "openTrade (liveState (openPaperTrade clk dir s symbol p)) = openTrade (liveState s)"
  "trades (liveState (openPaperTrade clk dir s symbol p)) = trades (liveState s)"
  "outbox (openPaperTrade clk dir s symbol p) = outbox s"
  by (simp_all add: openPaperTrade_def Let_def split: option.splits)

lemma longUpdatePosition_eq:
  "paperTrade st = Some pt \<Longrightarrow> p_symbol pt = symbol \<Longrightarrow>
   longUpdatePosition clk symbol ltp st =
     checkLiveTrade clk LONG
       (st\<lparr>paperTrade := Some (pt\<lparr>p_currentPrice := ltp,
                                  p_unrealizedPnl := unrealizedAt LONG pt ltp\<rparr>),
           currentPeakPnl := peakUpdate (unrealizedAt LONG pt ltp) (currentPeakPnl st)\<rparr>)
       (cumulativePnl (liveState st) + unrealizedAt LONG pt ltp) ltp symbol"
  by (simp add: longUpdatePosition_def unrealizedAt_def Let_def)

lemma longFsmSwitch_no_live:
  assumes "openTrade (liveState s) = None"
  shows "blockedAtMs (liveState (longFsmSwitch clk symbol ltp now s)) = blockedAtMs (liveState s)"
    and "state (liveState (longFsmSwitch clk symbol ltp now s)) = state (liveState s)"
    and "openTrade (liveState (longFsmSwitch clk symbol ltp now s)) = None"
    and "trades (liveState (longFsmSwitch clk symbol ltp now s)) = trades (liveState s)"
    and "notifications k (outbox (longFsmSwitch clk symbol ltp now s)) = notifications k (outbox s)"
    and "liveCloses (outbox (longFsmSwitch clk symbol ltp now s)) = liveCloses (outbox s)"
  using assms
  by (simp_all add: longFsmSwitch_def closePaperTrade_no_live openPaperTrade_live
        split: fsm.splits option.splits)

lemma longTick_protective:
  assumes "paperTrade st = Some pt" and "p_symbol pt = symbol"
    and "state (liveState st) = POSITION" and "openTrade (liveState st) = Some ot"
    and "cumulativePnl (liveState st) + unrealizedAt LONG pt ltp \<le> CLOSE_THRESHOLD"
  shows "notifications EXIT (outbox (longTick clk symbol ltp now st)) =
           notifications EXIT (outbox st) @ [SendLiveSignal EXIT (o_symbol ot) ltp LONG]
       \<and> liveCloses (outbox (longTick clk symbol ltp now st)) =
           liveCloses (outbox st) @
             [LogLiveClosed LONG ''Protective'' (o_symbol ot) ltp (liveRealized LONG (Some ot) ltp)]
       \<and> blockedAtMs (liveState (longTick clk symbol ltp now st)) = Some clk
       \<and> state (liveState (longTick clk symbol ltp now st)) = NO_POSITION
       \<and> openTrade (liveState (longTick clk symbol ltp now st)) = None
       \<and> trades (liveState (longTick clk symbol ltp now st)) =
           take 50 (\<lparr>r_id = ExitOf (o_id ot), r_symbol = o_symbol ot, r_action = EXIT,
                      r_entryPrice = o_entryPrice ot, r_exitPrice = Some ltp,
                      r_quantity = o_quantity ot,
                      r_realizedPnl = Some (liveRealized LONG (Some ot) ltp),
                      r_cumulativePnl =
                        cumulativePnl (liveState st) + liveRealized LONG (Some ot) ltp,
                      r_closedAt = Some clk\<rparr> # trades (liveState st))"
proof -
  define sp where "sp = st\<lparr>paperTrade := Some (pt\<lparr>p_currentPrice := ltp,
                                  p_unrealizedPnl := unrealizedAt LONG pt ltp\<rparr>),
           currentPeakPnl := peakUpdate (unrealizedAt LONG pt ltp) (currentPeakPnl st)\<rparr>"
  define tot where "tot = cumulativePnl (liveState st) + unrealizedAt LONG pt ltp"
  define s1 where "s1 = checkLiveTrade clk LONG sp tot ltp symbol"
  have safety: "longSafetyCheck st = st" using assms(1) by (simp add: longSafetyCheck_def)
  have upd: "longUpdatePosition clk symbol ltp st = s1"
    unfolding s1_def sp_def tot_def by (rule longUpdatePosition_eq [OF assms(1,2)])
  have sp: "state (liveState sp) = POSITION" "openTrade (liveState sp) = Some ot"
    "outbox sp = outbox st" "trades (liveState sp) = trades (liveState st)"
    "cumulativePnl (liveState sp) = cumulativePnl (liveState st)"
    using assms(3,4) by (simp_all add: sp_def)
  have tot: "tot \<le> CLOSE_THRESHOLD" using assms(5) by (simp add: tot_def)
  note c = checkLiveTrade_protective [OF sp(1) sp(2) tot, of clk LONG ltp symbol, folded s1_def]
  have s1: "notifications EXIT (outbox s1) =
           notifications EXIT (outbox st) @ [SendLiveSignal EXIT (o_symbol ot) ltp LONG]"
    "liveCloses (outbox s1) = liveCloses (outbox st) @
             [LogLiveClosed LONG ''Protective'' (o_symbol ot) ltp (liveRealized LONG (Some ot) ltp)]"
    by (simp_all add: c(1) sp(3) notifications_def liveCloses_def)
  show ?thesis
  proof (cases "threshold s1 = Null")
    case True
    then have "longTick clk symbol ltp now st = s1"
      by (simp add: longTick_def safety upd Let_def)
    then show ?thesis using s1 c sp by simp
  next
    case False
    then have "longTick clk symbol ltp now st = longFsmSwitch clk symbol ltp now s1"
      by (simp add: longTick_def safety upd Let_def)
    then show ?thesis using s1 c sp longFsmSwitch_no_live [OF c(4), where clk=clk and symbol=symbol and ltp=ltp and now=now]
      by simp
  qed
qed

lemma shortUpdatePosition_eq:
  "paperTrade st = Some pt \<Longrightarrow> p_symbol pt = symbol \<Longrightarrow>
   shortUpdatePosition clk symbol ltp st =
     checkLiveTrade clk SHORT
       (st\<lparr>paperTrade := Some (pt\<lparr>p_currentPrice := ltp,
                                  p_unrealizedPnl := unrealizedAt SHORT pt ltp\<rparr>),
           currentPeakPnl := peakUpdate (unrealizedAt SHORT pt ltp) (currentPeakPnl st)\<rparr>)
       (cumulativePnl (liveState st) + unrealizedAt SHORT pt ltp) ltp symbol"
  by (simp add: shortUpdatePosition_def unrealizedAt_def Let_def)

lemma shortFsmSwitch_no_live:
  assumes "openTrade (liveState s) = None"
  shows "blockedAtMs (liveState (shortFsmSwitch clk symbol ltp now s)) = blockedAtMs (liveState s)"
    and "state (liveState (shortFsmSwitch clk symbol ltp now s)) = state (liveState s)"
    and "openTrade (liveState (shortFsmSwitch clk symbol ltp now s)) = None"
    and "trades (liveState (shortFsmSwitch clk symbol ltp now s)) = trades (liveState s)"
    and "notifications k (outbox (shortFsmSwitch clk symbol ltp now s)) = notifications k (outbox s)"
    and "liveCloses (outbox (shortFsmSwitch clk symbol ltp now s)) = liveCloses (outbox s)"
  using assms
  by (simp_all add: shortFsmSwitch_def closePaperTrade_no_live openPaperTrade_live
        split: fsm.splits option.splits)

lemma shortTick_protective:
  assumes "paperTrade st = Some pt" and "p_symbol pt = symbol"
    and "state (liveState st) = POSITION" and "openTrade (liveState st) = Some ot"
    and "cumulativePnl (liveState st) + unrealizedAt SHORT pt ltp \<le> CLOSE_THRESHOLD"
  shows "notifications EXIT (outbox (shortTick clk symbol ltp now st)) =
           notifications EXIT (outbox st) @ [SendLiveSignal EXIT (o_symbol ot) ltp SHORT]
       \<and> liveCloses (outbox (shortTick clk symbol ltp now st)) =
           liveCloses (outbox st) @
             [LogLiveClosed SHORT ''Protective'' (o_symbol ot) ltp (liveRealized SHORT (Some ot) ltp)]
       \<and> blockedAtMs (liveState (shortTick clk symbol ltp now st)) = Some clk
       \<and> state (liveState (shortTick clk symbol ltp now st)) = NO_POSITION
       \<and> openTrade (liveState (shortTick clk symbol ltp now st)) = None
       \<and> trades (liveState (shortTick clk symbol ltp now st)) =
           take 50 (\<lparr>r_id = ExitOf (o_id ot), r_symbol = o_symbol ot, r_action = EXIT,
                      r_entryPrice = o_entryPrice ot, r_exitPrice = Some ltp,
                      r_quantity = o_quantity ot,
                      r_realizedPnl = Some (liveRealized SHORT (Some ot) ltp),
                      r_cumulativePnl =
                        cumulativePnl (liveState st) + liveRealized SHORT (Some ot) ltp,
                      r_closedAt = Some clk\<rparr> # trades (liveState st))"
proof -
  define sp where "sp = st\<lparr>paperTrade := Some (pt\<lparr>p_currentPrice := ltp,
                                  p_unrealizedPnl := unrealizedAt SHORT pt ltp\<rparr>),
           currentPeakPnl := peakUpdate (unrealizedAt SHORT pt ltp) (currentPeakPnl st)\<rparr>"
  define tot where "tot = cumulativePnl (liveState st) + unrealizedAt SHORT pt ltp"
  define s1 where "s1 = checkLiveTrade clk SHORT sp tot ltp symbol"
  have safety: "shortSafetyCheck st = st" using assms(1) by (simp add: shortSafetyCheck_def)
  have upd: "shortUpdatePosition clk symbol ltp st = s1"
    unfolding s1_def sp_def tot_def by (rule shortUpdatePosition_eq [OF assms(1,2)])
  have sp: "state (liveState sp) = POSITION" "openTrade (liveState sp) = Some ot"
    "outbox sp = outbox st" "trades (liveState sp) = trades (liveState st)"
    "cumulativePnl (liveState sp) = cumulativePnl (liveState st)"
    using assms(3,4) by (simp_all add: sp_def)
  have tot: "tot \<le> CLOSE_THRESHOLD" using assms(5) by (simp add: tot_def)
  note c = checkLiveTrade_protective [OF sp(1) sp(2) tot, of clk SHORT ltp symbol, folded s1_def]
  have s1: "notifications EXIT (outbox s1) =
           notifications EXIT (outbox st) @ [SendLiveSignal EXIT (o_symbol ot) ltp SHORT]"
    "liveCloses (outbox s1) = liveCloses (outbox st) @
             [LogLiveClosed SHORT ''Protective'' (o_symbol ot) ltp (liveRealized SHORT (Some ot) ltp)]"
    by (simp_all add: c(1) sp(3) notifications_def liveCloses_def)
  show ?thesis
  proof (cases "threshold s1 = Null")
    case True
    then have "shortTick clk symbol ltp now st = s1"
      by (simp add: shortTick_def safety upd Let_def)
    then show ?thesis using s1 c sp by simp
  next
    case False
    then have "shortTick clk symbol ltp now st = shortFsmSwitch clk symbol ltp now s1"
      by (simp add: shortTick_def safety upd Let_def)
    then show ?thesis using s1 c sp shortFsmSwitch_no_live [OF c(4), where clk=clk and symbol=symbol and ltp=ltp and now=now]
      by simp
  qed
qed

text \<open>
  Claim C5. On a tick for the symbol of the open paper trade, with the live sub-track in
  \<open>POSITION\<close> (its live trade open) and the total PnL
  \<open>live.cumulativePnl + paperTrade.unrealizedPnl\<close> at or below 0, exactly one live close
  is performed, with reason "Protective": the live trade is closed at the tick's price (one
  EXIT row on the ledger), exactly one EXIT notification is emitted, and
  \<open>live.blockedAtMs\<close> is the clock reading of that tick. This holds for the whole tick,
  whether or not the paper stop loss also fires on it.
\<close>

theorem protective_close_once:
  assumes "paperTrade st = Some pt" and "p_symbol pt = symbol"
    and "state (liveState st) = POSITION" and "openTrade (liveState st) = Some ot"
    and "cumulativePnl (liveState st) + unrealizedAt dir pt ltp \<le> CLOSE_THRESHOLD"
  shows "notifications EXIT (outbox (tickTrack dir (clk, symbol, ltp) st)) =
           notifications EXIT (outbox st) @ [SendLiveSignal EXIT (o_symbol ot) ltp dir]
       \<and> liveCloses (outbox (tickTrack dir (clk, symbol, ltp) st)) =
           liveCloses (outbox st) @
             [LogLiveClosed dir ''Protective'' (o_symbol ot) ltp (liveRealized dir (Some ot) ltp)]
       \<and> blockedAtMs (liveState (tickTrack dir (clk, symbol, ltp) st)) = Some clk
       \<and> state (liveState (tickTrack dir (clk, symbol, ltp) st)) = NO_POSITION
       \<and> openTrade (liveState (tickTrack dir (clk, symbol, ltp) st)) = None
       \<and> trades (liveState (tickTrack dir (clk, symbol, ltp) st)) =
           take 50 (\<lparr>r_id = ExitOf (o_id ot), r_symbol = o_symbol ot, r_action = EXIT,
                      r_entryPrice = o_entryPrice ot, r_exitPrice = Some ltp,
                      r_quantity = o_quantity ot,
                      r_realizedPnl = Some (liveRealized dir (Some ot) ltp),
                      r_cumulativePnl =
                        cumulativePnl (liveState st) + liveRealized dir (Some ot) ltp,
                      r_closedAt = Some clk\<rparr> # trades (liveState st))"
proof (cases dir)
  case LONG
  show ?thesis
    using longTick_protective [OF assms(1-4) assms(5) [unfolded LONG], of clk clk]
    by (simp add: LONG)
next
  case SHORT
  show ?thesis
    using shortTick_protective [OF assms(1-4) assms(5) [unfolded SHORT], of clk clk]
    by (simp add: SHORT)
qed



theorem protective_close_once_witness:
  "state (liveState (tickTrack LONG (2000, ''BTCUSDT'', 105) longTrackAt100)) = POSITION
   \<and> notifications EXIT (outbox (tickTrack LONG (2000, ''BTCUSDT'', 105) longTrackAt100)) = []
   \<and> notifications EXIT (outbox (tickTrack LONG (3000, ''BTCUSDT'', 99)
         (tickTrack LONG (2000, ''BTCUSDT'', 105) longTrackAt100))) =
       [SendLiveSignal EXIT ''BTCUSDT'' 99 LONG]
   \<and> liveCloses (outbox (tickTrack LONG (3000, ''BTCUSDT'', 99)
         (tickTrack LONG (2000, ''BTCUSDT'', 105) longTrackAt100))) =
       [LogLiveClosed LONG ''Protective'' ''BTCUSDT'' 99 (- (3 / 5))]
   \<and> blockedAtMs (liveState (tickTrack LONG (3000, ''BTCUSDT'', 99)
         (tickTrack LONG (2000, ''BTCUSDT'', 105) longTrackAt100))) = Some 3000"
proof -
  let ?st = "tickTrack LONG (2000, ''BTCUSDT'', 105) longTrackAt100"
  let ?pt = "\<lparr>p_id = PaperId LONG ''BTCUSDT'' 1000, p_symbol = ''BTCUSDT'',
                p_direction = LONG, p_entryPrice = 100, p_currentPrice = 105,
                p_quantity = 1 / 10, p_unrealizedPnl = 1 / 2, p_enteredAt = 1000\<rparr>"
  let ?ot = "\<lparr>o_id = LiveId LONG ''BTCUSDT'' 2000, o_symbol = ''BTCUSDT'', o_entryPrice = 105,
               o_quantity = 1 / 10, o_lot = 1\<rparr>"
  have h: "paperTrade ?st = Some ?pt" "p_symbol ?pt = ''BTCUSDT''"
    "state (liveState ?st) = POSITION" "openTrade (liveState ?st) = Some ?ot"
    "outbox ?st = [SendLiveSignal ENTRY ''BTCUSDT'' 105 LONG]"
    "cumulativePnl (liveState ?st) = 0"
    by (simp_all add: eval_defs)
  have t: "cumulativePnl (liveState ?st) + unrealizedAt LONG ?pt 99 \<le> CLOSE_THRESHOLD"
    using h(6) by (simp add: unrealizedAt_def CLOSE_THRESHOLD_def)
  show ?thesis
    using protective_close_once [OF h(1) h(2) h(3) h(4) t, of 3000] h(3) h(5)
    by (simp add: notifications_def liveCloses_def liveRealized_def)
qed

subsection \<open>Live promotion\<close>

lemma expireLiveBlock_live:
  "truthyMs (blockedAtMs (liveState (expireLiveBlock clk s))) =
     lockoutActive clk (blockedAtMs (liveState s))"
  "state (liveState (expireLiveBlock clk s)) = state (liveState s)"
  "openTrade (liveState (expireLiveBlock clk s)) = openTrade (liveState s)"
  "pendingPaperTrade (liveState (expireLiveBlock clk s)) = pendingPaperTrade (liveState s)"
  "trades (liveState (expireLiveBlock clk s)) = trades (liveState s)"
  "cumulativePnl (liveState (expireLiveBlock clk s)) = cumulativePnl (liveState s)"
  "outbox (expireLiveBlock clk s) = outbox s"
  by (cases "blockedAtMs (liveState s)"; simp add: expireLiveBlock_def)+

lemma protectiveClose_skip:
  "state (liveState s) \<noteq> POSITION \<or> tot > CLOSE_THRESHOLD \<Longrightarrow>
   protectiveClose clk dir s tot p = s"
  by (auto simp: protectiveClose_def)

lemma activateLive_skip:
  "state (liveState s) = POSITION \<Longrightarrow> activateLive clk dir s tot p symbol = s"
  by (simp add: activateLive_def)

lemma activateLive_fire:
  "state (liveState s) = NO_POSITION \<Longrightarrow> pendingPaperTrade (liveState s) = Some pend \<Longrightarrow>
   \<not> truthyMs (blockedAtMs (liveState s)) \<Longrightarrow> tot > OPEN_THRESHOLD \<Longrightarrow>
   activateLive clk dir s tot p symbol = openLiveTrade clk dir s p symbol"
  by (simp add: activateLive_def)

lemma updateLiveUnrealized_live:
  "state (liveState (updateLiveUnrealized dir s p)) = state (liveState s)"
  "openTrade (liveState (updateLiveUnrealized dir s p)) = openTrade (liveState s)"
  "trades (liveState (updateLiveUnrealized dir s p)) = trades (liveState s)"
  "outbox (updateLiveUnrealized dir s p) = outbox s"
  by (cases "openTrade (liveState s)"; simp add: updateLiveUnrealized_def)+

lemma openLiveTrade_live:
  assumes "pendingPaperTrade (liveState s) = Some pend"
  shows "outbox (openLiveTrade clk dir s p symbol) = outbox s @ [SendLiveSignal ENTRY symbol p dir]"
    and "openTrade (liveState (openLiveTrade clk dir s p symbol)) =
           Some \<lparr>o_id = LiveId dir symbol clk, o_symbol = symbol, o_entryPrice = p,
                 o_quantity = pend_quantity pend, o_lot = pend_lot pend\<rparr>"
    and "state (liveState (openLiveTrade clk dir s p symbol)) = POSITION"
    and "trades (liveState (openLiveTrade clk dir s p symbol)) =
           take 50 (\<lparr>r_id = LiveId dir symbol clk, r_symbol = symbol, r_action = ENTRY,
                      r_entryPrice = p, r_exitPrice = None,
                      r_quantity = pend_quantity pend, r_realizedPnl = None,
                      r_cumulativePnl = cumulativePnl (liveState s),
                      r_closedAt = None\<rparr> # trades (liveState s))"
  using assms by (simp_all add: openLiveTrade_def Let_def)

lemma checkLiveTrade_promote:
  assumes "state (liveState s) = NO_POSITION" and "pendingPaperTrade (liveState s) = Some pend"
    and "\<not> lockoutActive clk (blockedAtMs (liveState s))" and "tot > OPEN_THRESHOLD"
  shows "outbox (checkLiveTrade clk dir s tot p symbol) =
           outbox s @ [SendLiveSignal ENTRY symbol p dir]"
    and "openTrade (liveState (checkLiveTrade clk dir s tot p symbol)) =
           Some \<lparr>o_id = LiveId dir symbol clk, o_symbol = symbol, o_entryPrice = p,
                 o_quantity = pend_quantity pend, o_lot = pend_lot pend\<rparr>"
    and "state (liveState (checkLiveTrade clk dir s tot p symbol)) = POSITION"
    and "trades (liveState (checkLiveTrade clk dir s tot p symbol)) =
           take 50 (\<lparr>r_id = LiveId dir symbol clk, r_symbol = symbol, r_action = ENTRY,
                      r_entryPrice = p, r_exitPrice = None,
                      r_quantity = pend_quantity pend, r_realizedPnl = None,
                      r_cumulativePnl = cumulativePnl (liveState s),
                      r_closedAt = None\<rparr> # trades (liveState s))"
proof -
  define s0 where "s0 = expireLiveBlock clk s"
  have s0: "state (liveState s0) = NO_POSITION" "pendingPaperTrade (liveState s0) = Some pend"
    "\<not> truthyMs (blockedAtMs (liveState s0))" "outbox s0 = outbox s"
    "trades (liveState s0) = trades (liveState s)"
    "cumulativePnl (liveState s0) = cumulativePnl (liveState s)"
    using assms(1-3) by (simp_all add: s0_def expireLiveBlock_live)
  have p: "protectiveClose clk dir s0 tot p = s0"
    by (rule protectiveClose_skip) (simp add: s0(1))
  have a: "activateLive clk dir s0 tot p symbol = openLiveTrade clk dir s0 p symbol"
    by (rule activateLive_fire [OF s0(1) s0(2) s0(3) assms(4)])
  have c: "checkLiveTrade clk dir s tot p symbol =
           updateLiveUnrealized dir (openLiveTrade clk dir s0 p symbol) p"
    by (simp add: checkLiveTrade_def s0_def [symmetric] p a)
  note o = openLiveTrade_live [OF s0(2), of clk dir p symbol]
  show "outbox (checkLiveTrade clk dir s tot p symbol) =
           outbox s @ [SendLiveSignal ENTRY symbol p dir]"
    by (simp add: c updateLiveUnrealized_live o(1) s0(4))
  show "openTrade (liveState (checkLiveTrade clk dir s tot p symbol)) =
           Some \<lparr>o_id = LiveId dir symbol clk, o_symbol = symbol, o_entryPrice = p,
                 o_quantity = pend_quantity pend, o_lot = pend_lot pend\<rparr>"
    by (simp add: c updateLiveUnrealized_live o(2))
  show "state (liveState (checkLiveTrade clk dir s tot p symbol)) = POSITION"
    by (simp add: c updateLiveUnrealized_live o(3))
  show "trades (liveState (checkLiveTrade clk dir s tot p symbol)) =
           take 50 (\<lparr>r_id = LiveId dir symbol clk, r_symbol = symbol, r_action = ENTRY,
                      r_entryPrice = p, r_exitPrice = None,
                      r_quantity = pend_quantity pend, r_realizedPnl = None,
                      r_cumulativePnl = cumulativePnl (liveState s),
                      r_closedAt = None\<rparr> # trades (liveState s))"
    by (simp add: c updateLiveUnrealized_live o(4) s0(5) s0(6))
qed

lemma checkLiveTrade_hold:
  assumes "state (liveState s) = POSITION" and "tot > OPEN_THRESHOLD"
  shows "outbox (checkLiveTrade clk dir s tot p symbol) = outbox s"
    and "openTrade (liveState (checkLiveTrade clk dir s tot p symbol)) = openTrade (liveState s)"
    and "state (liveState (checkLiveTrade clk dir s tot p symbol)) = POSITION"
    and "trades (liveState (checkLiveTrade clk dir s tot p symbol)) = trades (liveState s)"
proof -
  define s0 where "s0 = expireLiveBlock clk s"
  have s0: "state (liveState s0) = POSITION" "outbox s0 = outbox s"
    "trades (liveState s0) = trades (liveState s)"
    "openTrade (liveState s0) = openTrade (liveState s)"
    using assms(1) by (simp_all add: s0_def expireLiveBlock_live)
  have p: "protectiveClose clk dir s0 tot p = s0"
    by (rule protectiveClose_skip) (use assms(2) in \<open>simp add: OPEN_THRESHOLD_def CLOSE_THRESHOLD_def\<close>)
  have a: "activateLive clk dir s0 tot p symbol = s0"
    by (rule activateLive_skip [OF s0(1)])
  have c: "checkLiveTrade clk dir s tot p symbol = updateLiveUnrealized dir s0 p"
    by (simp add: checkLiveTrade_def s0_def [symmetric] p a)
  show "outbox (checkLiveTrade clk dir s tot p symbol) = outbox s"
    "openTrade (liveState (checkLiveTrade clk dir s tot p symbol)) = openTrade (liveState s)"
    "state (liveState (checkLiveTrade clk dir s tot p symbol)) = POSITION"
    "trades (liveState (checkLiveTrade clk dir s tot p symbol)) = trades (liveState s)"
    by (simp_all add: c updateLiveUnrealized_live s0)
qed

lemma closePaperTrade_entries:
  "notifications ENTRY (outbox (closePaperTrade clk dir s x reason)) = notifications ENTRY (outbox s)"
  by (simp add: closePaperTrade_def closeLiveTrade_def Let_def notifications_def
        split: option.splits)

lemma openPaperTrade_outbox: "outbox (openPaperTrade clk dir s symbol p) = outbox s"
  by (simp add: openPaperTrade_def Let_def split: option.splits)

lemma closePaperTrade_closed:
  "paperTrade s = Some pt \<Longrightarrow>
   paperTrade (closePaperTrade clk dir s x reason) = None
   \<and> openTrade (liveState (closePaperTrade clk dir s x reason)) = None"
  by (simp add: closePaperTrade_def closeLiveTrade_def Let_def split: option.splits)

lemma longFsmSwitch_entries:
  "notifications ENTRY (outbox (longFsmSwitch clk symbol ltp now s)) = notifications ENTRY (outbox s)"
  by (simp add: longFsmSwitch_def closePaperTrade_entries openPaperTrade_outbox
        split: fsm.splits option.splits)

lemma longFsmSwitch_live_kept:
  assumes "paperTrade s = Some pt"
  shows "paperTrade (longFsmSwitch clk symbol ltp now s) = None
         \<and> openTrade (liveState (longFsmSwitch clk symbol ltp now s)) = None
       \<or> liveState (longFsmSwitch clk symbol ltp now s) = liveState s"
  using assms closePaperTrade_closed [OF assms, of clk LONG ltp "''Stop Loss''"]
  by (simp add: longFsmSwitch_def openPaperTrade_keeps_open split: fsm.splits option.splits)

lemma longTick_promote:
  assumes "paperTrade st = Some pt" and "p_symbol pt = symbol"
    and "state (liveState st) = NO_POSITION" and "pendingPaperTrade (liveState st) = Some pend"
    and "\<not> lockoutActive clk (blockedAtMs (liveState st))"
    and "cumulativePnl (liveState st) + unrealizedAt LONG pt ltp > OPEN_THRESHOLD"
  shows "openTrade (liveState (longUpdatePosition clk symbol ltp st)) =
           Some \<lparr>o_id = LiveId LONG symbol clk, o_symbol = symbol, o_entryPrice = ltp,
                 o_quantity = pend_quantity pend, o_lot = pend_lot pend\<rparr>"
    and "notifications ENTRY (outbox (longTick clk symbol ltp now st)) =
           notifications ENTRY (outbox st) @ [SendLiveSignal ENTRY symbol ltp LONG]"
    and "state (liveState (longTick clk symbol ltp now st)) = POSITION
         \<or> paperTrade (longTick clk symbol ltp now st) = None"
proof -
  define sp where "sp = st\<lparr>paperTrade := Some (pt\<lparr>p_currentPrice := ltp,
                                  p_unrealizedPnl := unrealizedAt LONG pt ltp\<rparr>),
           currentPeakPnl := peakUpdate (unrealizedAt LONG pt ltp) (currentPeakPnl st)\<rparr>"
  define tot where "tot = cumulativePnl (liveState st) + unrealizedAt LONG pt ltp"
  define s1 where "s1 = checkLiveTrade clk LONG sp tot ltp symbol"
  have safety: "longSafetyCheck st = st" using assms(1) by (simp add: longSafetyCheck_def)
  have upd: "longUpdatePosition clk symbol ltp st = s1"
    unfolding s1_def sp_def tot_def by (rule longUpdatePosition_eq [OF assms(1,2)])
  have sp: "state (liveState sp) = NO_POSITION" "pendingPaperTrade (liveState sp) = Some pend"
    "\<not> lockoutActive clk (blockedAtMs (liveState sp))" "outbox sp = outbox st"
    using assms(3,4,5) by (simp_all add: sp_def)
  have tot: "tot > OPEN_THRESHOLD" using assms(6) by (simp add: tot_def)
  note c = checkLiveTrade_promote [OF sp(1) sp(2) sp(3) tot, where dir=LONG and p=ltp and symbol=symbol, folded s1_def]
  have p1: "paperTrade s1 = Some (pt\<lparr>p_currentPrice := ltp,
                                  p_unrealizedPnl := unrealizedAt LONG pt ltp\<rparr>)"
    by (simp add: s1_def sp_def)
  show "openTrade (liveState (longUpdatePosition clk symbol ltp st)) =
           Some \<lparr>o_id = LiveId LONG symbol clk, o_symbol = symbol, o_entryPrice = ltp,
                 o_quantity = pend_quantity pend, o_lot = pend_lot pend\<rparr>"
    by (simp add: upd c(2))
  have e1: "notifications ENTRY (outbox s1) =
           notifications ENTRY (outbox st) @ [SendLiveSignal ENTRY symbol ltp LONG]"
    by (simp add: c(1) sp(4) notifications_def)
  have t: "longTick clk symbol ltp now st = s1
           \<or> longTick clk symbol ltp now st = longFsmSwitch clk symbol ltp now s1"
    by (simp add: longTick_def safety upd Let_def)
  show "notifications ENTRY (outbox (longTick clk symbol ltp now st)) =
           notifications ENTRY (outbox st) @ [SendLiveSignal ENTRY symbol ltp LONG]"
    using t e1 longFsmSwitch_entries [of clk symbol ltp now s1] by auto
  show "state (liveState (longTick clk symbol ltp now st)) = POSITION
         \<or> paperTrade (longTick clk symbol ltp now st) = None"
    using t c(3) longFsmSwitch_live_kept [OF p1, where clk=clk and symbol=symbol and ltp=ltp and now=now] by auto
qed

lemma longTick_hold:
  assumes "paperTrade st = Some pt" and "p_symbol pt = symbol"
    and "state (liveState st) = POSITION"
    and "cumulativePnl (liveState st) + unrealizedAt LONG pt ltp > OPEN_THRESHOLD"
  shows "notifications ENTRY (outbox (longTick clk symbol ltp now st)) =
           notifications ENTRY (outbox st)"
    and "state (liveState (longTick clk symbol ltp now st)) = POSITION
         \<or> paperTrade (longTick clk symbol ltp now st) = None"
    and "openTrade (liveState (longTick clk symbol ltp now st)) = openTrade (liveState st)
         \<or> openTrade (liveState (longTick clk symbol ltp now st)) = None"
proof -
  define sp where "sp = st\<lparr>paperTrade := Some (pt\<lparr>p_currentPrice := ltp,
                                  p_unrealizedPnl := unrealizedAt LONG pt ltp\<rparr>),
           currentPeakPnl := peakUpdate (unrealizedAt LONG pt ltp) (currentPeakPnl st)\<rparr>"
  define tot where "tot = cumulativePnl (liveState st) + unrealizedAt LONG pt ltp"
  define s1 where "s1 = checkLiveTrade clk LONG sp tot ltp symbol"
  have safety: "longSafetyCheck st = st" using assms(1) by (simp add: longSafetyCheck_def)
  have upd: "longUpdatePosition clk symbol ltp st = s1"
    unfolding s1_def sp_def tot_def by (rule longUpdatePosition_eq [OF assms(1,2)])
  have sp: "state (liveState sp) = POSITION" "outbox sp = outbox st"
    "openTrade (liveState sp) = openTrade (liveState st)"
    using assms(3) by (simp_all add: sp_def)
  have tot: "tot > OPEN_THRESHOLD" using assms(4) by (simp add: tot_def)
  note c = checkLiveTrade_hold [OF sp(1) tot, where clk=clk and dir=LONG and p=ltp and symbol=symbol, folded s1_def]
  have p1: "paperTrade s1 = Some (pt\<lparr>p_currentPrice := ltp,
                                  p_unrealizedPnl := unrealizedAt LONG pt ltp\<rparr>)"
    by (simp add: s1_def sp_def)
  have t: "longTick clk symbol ltp now st = s1
           \<or> longTick clk symbol ltp now st = longFsmSwitch clk symbol ltp now s1"
    by (simp add: longTick_def safety upd Let_def)
  show "notifications ENTRY (outbox (longTick clk symbol ltp now st)) =
           notifications ENTRY (outbox st)"
    using t c(1) sp(2) longFsmSwitch_entries [of clk symbol ltp now s1] by auto
  show "state (liveState (longTick clk symbol ltp now st)) = POSITION
         \<or> paperTrade (longTick clk symbol ltp now st) = None"
    using t c(3) longFsmSwitch_live_kept [OF p1, where clk=clk and symbol=symbol and ltp=ltp and now=now] by auto
  show "openTrade (liveState (longTick clk symbol ltp now st)) = openTrade (liveState st)
         \<or> openTrade (liveState (longTick clk symbol ltp now st)) = None"
    using t c(2) sp(3) longFsmSwitch_live_kept [OF p1, where clk=clk and symbol=symbol and ltp=ltp and now=now] by auto
qed

lemma shortFsmSwitch_entries:
  "notifications ENTRY (outbox (shortFsmSwitch clk symbol ltp now s)) = notifications ENTRY (outbox s)"
  by (simp add: shortFsmSwitch_def closePaperTrade_entries openPaperTrade_outbox
        split: fsm.splits option.splits)

lemma shortFsmSwitch_live_kept:
  assumes "paperTrade s = Some pt"
  shows "paperTrade (shortFsmSwitch clk symbol ltp now s) = None
         \<and> openTrade (liveState (shortFsmSwitch clk symbol ltp now s)) = None
       \<or> liveState (shortFsmSwitch clk symbol ltp now s) = liveState s"
  using assms closePaperTrade_closed [OF assms, of clk SHORT ltp "''Stop Loss''"]
  by (simp add: shortFsmSwitch_def openPaperTrade_keeps_open split: fsm.splits option.splits)

lemma shortTick_promote:
  assumes "paperTrade st = Some pt" and "p_symbol pt = symbol"
    and "state (liveState st) = NO_POSITION" and "pendingPaperTrade (liveState st) = Some pend"
    and "\<not> lockoutActive clk (blockedAtMs (liveState st))"
    and "cumulativePnl (liveState st) + unrealizedAt SHORT pt ltp > OPEN_THRESHOLD"
  shows "openTrade (liveState (shortUpdatePosition clk symbol ltp st)) =
           Some \<lparr>o_id = LiveId SHORT symbol clk, o_symbol = symbol, o_entryPrice = ltp,
                 o_quantity = pend_quantity pend, o_lot = pend_lot pend\<rparr>"
    and "notifications ENTRY (outbox (shortTick clk symbol ltp now st)) =
           notifications ENTRY (outbox st) @ [SendLiveSignal ENTRY symbol ltp SHORT]"
    and "state (liveState (shortTick clk symbol ltp now st)) = POSITION
         \<or> paperTrade (shortTick clk symbol ltp now st) = None"
proof -
  define sp where "sp = st\<lparr>paperTrade := Some (pt\<lparr>p_currentPrice := ltp,
                                  p_unrealizedPnl := unrealizedAt SHORT pt ltp\<rparr>),
           currentPeakPnl := peakUpdate (unrealizedAt SHORT pt ltp) (currentPeakPnl st)\<rparr>"
  define tot where "tot = cumulativePnl (liveState st) + unrealizedAt SHORT pt ltp"
  define s1 where "s1 = checkLiveTrade clk SHORT sp tot ltp symbol"
  have safety: "shortSafetyCheck st = st" using assms(1) by (simp add: shortSafetyCheck_def)
  have upd: "shortUpdatePosition clk symbol ltp st = s1"
    unfolding s1_def sp_def tot_def by (rule shortUpdatePosition_eq [OF assms(1,2)])
  have sp: "state (liveState sp) = NO_POSITION" "pendingPaperTrade (liveState sp) = Some pend"
    "\<not> lockoutActive clk (blockedAtMs (liveState sp))" "outbox sp = outbox st"
    using assms(3,4,5) by (simp_all add: sp_def)
  have tot: "tot > OPEN_THRESHOLD" using assms(6) by (simp add: tot_def)
  note c = checkLiveTrade_promote [OF sp(1) sp(2) sp(3) tot, where dir=SHORT and p=ltp and symbol=symbol, folded s1_def]
  have p1: "paperTrade s1 = Some (pt\<lparr>p_currentPrice := ltp,
                                  p_unrealizedPnl := unrealizedAt SHORT pt ltp\<rparr>)"
    by (simp add: s1_def sp_def)
  show "openTrade (liveState (shortUpdatePosition clk symbol ltp st)) =
           Some \<lparr>o_id = LiveId SHORT symbol clk, o_symbol = symbol, o_entryPrice = ltp,
                 o_quantity = pend_quantity pend, o_lot = pend_lot pend\<rparr>"
    by (simp add: upd c(2))
  have e1: "notifications ENTRY (outbox s1) =
           notifications ENTRY (outbox st) @ [SendLiveSignal ENTRY symbol ltp SHORT]"
    by (simp add: c(1) sp(4) notifications_def)
  have t: "shortTick clk symbol ltp now st = s1
           \<or> shortTick clk symbol ltp now st = shortFsmSwitch clk symbol ltp now s1"
    by (simp add: shortTick_def safety upd Let_def)
  show "notifications ENTRY (outbox (shortTick clk symbol ltp now st)) =
           notifications ENTRY (outbox st) @ [SendLiveSignal ENTRY symbol ltp SHORT]"
    using t e1 shortFsmSwitch_entries [of clk symbol ltp now s1] by auto
  show "state (liveState (shortTick clk symbol ltp now st)) = POSITION
         \<or> paperTrade (shortTick clk symbol ltp now st) = None"
    using t c(3) shortFsmSwitch_live_kept [OF p1, where clk=clk and symbol=symbol and ltp=ltp and now=now] by auto
qed

lemma shortTick_hold:
  assumes "paperTrade st = Some pt" and "p_symbol pt = symbol"
    and "state (liveState st) = POSITION"
    and "cumulativePnl (liveState st) + unrealizedAt SHORT pt ltp > OPEN_THRESHOLD"
  shows "notifications ENTRY (outbox (shortTick clk symbol ltp now st)) =
           notifications ENTRY (outbox st)"
    and "state (liveState (shortTick clk symbol ltp now st)) = POSITION
         \<or> paperTrade (shortTick clk symbol ltp now st) = None"
    and "openTrade (liveState (shortTick clk symbol ltp now st)) = openTrade (liveState st)
         \<or> openTrade (liveState (shortTick clk symbol ltp now st)) = None"
proof -
  define sp where "sp = st\<lparr>paperTrade := Some (pt\<lparr>p_currentPrice := ltp,
                                  p_unrealizedPnl := unrealizedAt SHORT pt ltp\<rparr>),
           currentPeakPnl := peakUpdate (unrealizedAt SHORT pt ltp) (currentPeakPnl st)\<rparr>"
  define tot where "tot = cumulativePnl (liveState st) + unrealizedAt SHORT pt ltp"
  define s1 where "s1 = checkLiveTrade clk SHORT sp tot ltp symbol"
  have safety: "shortSafetyCheck st = st" using assms(1) by (simp add: shortSafetyCheck_def)
  have upd: "shortUpdatePosition clk symbol ltp st = s1"
    unfolding s1_def sp_def tot_def by (rule shortUpdatePosition_eq [OF assms(1,2)])
  have sp: "state (liveState sp) = POSITION" "outbox sp = outbox st"
    "openTrade (liveState sp) = openTrade (liveState st)"
    using assms(3) by (simp_all add: sp_def)
  have tot: "tot > OPEN_THRESHOLD" using assms(4) by (simp add: tot_def)
  note c = checkLiveTrade_hold [OF sp(1) tot, where clk=clk and dir=SHORT and p=ltp and symbol=symbol, folded s1_def]
  have p1: "paperTrade s1 = Some (pt\<lparr>p_currentPrice := ltp,
                                  p_unrealizedPnl := unrealizedAt SHORT pt ltp\<rparr>)"
    by (simp add: s1_def sp_def)
  have t: "shortTick clk symbol ltp now st = s1
           \<or> shortTick clk symbol ltp now st = shortFsmSwitch clk symbol ltp now s1"
    by (simp add: shortTick_def safety upd Let_def)
  show "notifications ENTRY (outbox (shortTick clk symbol ltp now st)) =
           notifications ENTRY (outbox st)"
    using t c(1) sp(2) shortFsmSwitch_entries [of clk symbol ltp now s1] by auto
  show "state (liveState (shortTick clk symbol ltp now st)) = POSITION
         \<or> paperTrade (shortTick clk symbol ltp now st) = None"
    using t c(3) shortFsmSwitch_live_kept [OF p1, where clk=clk and symbol=symbol and ltp=ltp and now=now] by auto
  show "openTrade (liveState (shortTick clk symbol ltp now st)) = openTrade (liveState st)
         \<or> openTrade (liveState (shortTick clk symbol ltp now st)) = None"
    using t c(2) sp(3) shortFsmSwitch_live_kept [OF p1, where clk=clk and symbol=symbol and ltp=ltp and now=now] by auto
qed

lemma tickTrack_hold:
  assumes "paperTrade st = Some pt" and "p_symbol pt = symbol"
    and "state (liveState st) = POSITION"
    and "cumulativePnl (liveState st) + unrealizedAt dir pt ltp > OPEN_THRESHOLD"
  shows "notifications ENTRY (outbox (tickTrack dir (clk, symbol, ltp) st)) =
           notifications ENTRY (outbox st)"
    and "state (liveState (tickTrack dir (clk, symbol, ltp) st)) = POSITION
         \<or> paperTrade (tickTrack dir (clk, symbol, ltp) st) = None"
    and "openTrade (liveState (tickTrack dir (clk, symbol, ltp) st)) = openTrade (liveState st)
         \<or> openTrade (liveState (tickTrack dir (clk, symbol, ltp) st)) = None"
  using longTick_hold [OF assms(1-3), where ltp=ltp and clk=clk and now=clk] shortTick_hold [OF assms(1-3), where ltp=ltp and clk=clk and now=clk]
    assms(4)
  by (cases dir; simp)+

lemma runTicks_hold:
  "positiveTotals dir st tks \<Longrightarrow>
   state (liveState st) = POSITION \<or> paperTrade st = None \<Longrightarrow>
   notifications ENTRY (outbox (runTicks dir st tks)) = notifications ENTRY (outbox st)
   \<and> (openTrade (liveState (runTicks dir st tks)) = openTrade (liveState st)
      \<or> openTrade (liveState (runTicks dir st tks)) = None)"
proof (induction tks arbitrary: st)
  case Nil
  show ?case by simp
next
  case (Cons tk tks)
  obtain clk symbol ltp where tk: "tk = (clk, symbol, ltp)" by (cases tk) auto
  from Cons.prems(1) obtain pt where pt: "paperTrade st = Some pt" "p_symbol pt = symbol"
    and tot: "cumulativePnl (liveState st) + unrealizedAt dir pt ltp > OPEN_THRESHOLD"
    and rest: "positiveTotals dir (tickTrack dir (clk, symbol, ltp) st) tks"
    by (auto simp: tk split: option.splits)
  from Cons.prems(2) pt have pos: "state (liveState st) = POSITION" by simp
  note h = tickTrack_hold [OF pt pos tot, where clk=clk]
  from Cons.IH [OF rest h(2)] h(1) h(3) show ?case by (auto simp: tk)
qed

text \<open>
  Claim C4. On a tick for the symbol of the open paper trade, with the live sub-track in
  \<open>NO_POSITION\<close>, a pending paper trade, no active lockout and the total PnL above 0,
  the update phase opens one live trade at the tick's price with the quantity and lot of
  the pending trade, and the tick emits exactly one ENTRY notification. Whatever ticks
  follow that keep the total PnL positive, no further ENTRY is emitted and no other live
  trade is opened: the open live trade is the same one, or has been closed.
\<close>

theorem live_promotion_once:
  assumes "paperTrade st = Some pt" and "p_symbol pt = symbol"
    and "state (liveState st) = NO_POSITION" and "pendingPaperTrade (liveState st) = Some pend"
    and "\<not> lockoutActive clk (blockedAtMs (liveState st))"
    and "cumulativePnl (liveState st) + unrealizedAt dir pt ltp > OPEN_THRESHOLD"
    and "positiveTotals dir (tickTrack dir (clk, symbol, ltp) st) tks"
  shows "openTrade (liveState (updatePosition dir (clk, symbol, ltp) st)) =
           Some \<lparr>o_id = LiveId dir symbol clk, o_symbol = symbol, o_entryPrice = ltp,
                 o_quantity = pend_quantity pend, o_lot = pend_lot pend\<rparr>
       \<and> notifications ENTRY (outbox (tickTrack dir (clk, symbol, ltp) st)) =
           notifications ENTRY (outbox st) @ [SendLiveSignal ENTRY symbol ltp dir]
       \<and> notifications ENTRY (outbox (runTicks dir (tickTrack dir (clk, symbol, ltp) st) tks)) =
           notifications ENTRY (outbox st) @ [SendLiveSignal ENTRY symbol ltp dir]
       \<and> (openTrade (liveState (runTicks dir (tickTrack dir (clk, symbol, ltp) st) tks)) =
             openTrade (liveState (tickTrack dir (clk, symbol, ltp) st))
          \<or> openTrade (liveState (runTicks dir (tickTrack dir (clk, symbol, ltp) st) tks)) = None)"
proof -
  have a: "openTrade (liveState (updatePosition dir (clk, symbol, ltp) st)) =
           Some \<lparr>o_id = LiveId dir symbol clk, o_symbol = symbol, o_entryPrice = ltp,
                 o_quantity = pend_quantity pend, o_lot = pend_lot pend\<rparr>"
    and b: "notifications ENTRY (outbox (tickTrack dir (clk, symbol, ltp) st)) =
           notifications ENTRY (outbox st) @ [SendLiveSignal ENTRY symbol ltp dir]"
    and c: "state (liveState (tickTrack dir (clk, symbol, ltp) st)) = POSITION
         \<or> paperTrade (tickTrack dir (clk, symbol, ltp) st) = None"
    using longTick_promote(1) [OF assms(1-5), where ltp=ltp] longTick_promote(2,3) [OF assms(1-5), where ltp=ltp and now=clk] shortTick_promote(1) [OF assms(1-5), where ltp=ltp] shortTick_promote(2,3) [OF assms(1-5), where ltp=ltp and now=clk]
      assms(6)
    by (cases dir; simp)+
  from runTicks_hold [OF assms(7) c] a b show ?thesis by simp
qed

theorem live_promotion_once_witness:
  "state (liveState longTrackAt100) = NO_POSITION
   \<and> positiveTotals LONG (tickTrack LONG (2000, ''BTCUSDT'', 105) longTrackAt100)
        [(3000, ''BTCUSDT'', 104), (4000, ''BTCUSDT'', 106)]
   \<and> notifications ENTRY (outbox longTrackAt100) = []
   \<and> notifications ENTRY (outbox (tickTrack LONG (2000, ''BTCUSDT'', 105) longTrackAt100)) =
       [SendLiveSignal ENTRY ''BTCUSDT'' 105 LONG]
   \<and> notifications ENTRY (outbox (runTicks LONG
         (tickTrack LONG (2000, ''BTCUSDT'', 105) longTrackAt100)
         [(3000, ''BTCUSDT'', 104), (4000, ''BTCUSDT'', 106)])) =
       [SendLiveSignal ENTRY ''BTCUSDT'' 105 LONG]
   \<and> openTrade (liveState (updatePosition LONG (2000, ''BTCUSDT'', 105) longTrackAt100)) =
       Some \<lparr>o_id = LiveId LONG ''BTCUSDT'' 2000, o_symbol = ''BTCUSDT'', o_entryPrice = 105,
             o_quantity = 1 / 10, o_lot = 1\<rparr>"
proof -
  let ?pt = "\<lparr>p_id = PaperId LONG ''BTCUSDT'' 1000, p_symbol = ''BTCUSDT'',
                p_direction = LONG, p_entryPrice = 100, p_currentPrice = 100,
                p_quantity = 1 / 10, p_unrealizedPnl = 0, p_enteredAt = 1000\<rparr>"
  let ?pend = "\<lparr>pend_entryPrice = 100, pend_quantity = 1 / 10, pend_lot = 1,
                   pend_openedAt = 1000\<rparr>"
  have h: "paperTrade longTrackAt100 = Some ?pt" "p_symbol ?pt = ''BTCUSDT''"
    "state (liveState longTrackAt100) = NO_POSITION"
    "pendingPaperTrade (liveState longTrackAt100) = Some ?pend"
    "\<not> lockoutActive 2000 (blockedAtMs (liveState longTrackAt100))"
    "cumulativePnl (liveState longTrackAt100) + unrealizedAt LONG ?pt 105 > OPEN_THRESHOLD"
    "outbox longTrackAt100 = []"
    by (simp_all add: longTrackAt100_def initTrack_def createLiveState_def unrealizedAt_def
          OPEN_THRESHOLD_def)
  have p: "positiveTotals LONG (tickTrack LONG (2000, ''BTCUSDT'', 105) longTrackAt100)
        [(3000, ''BTCUSDT'', 104), (4000, ''BTCUSDT'', 106)]"
    by (simp add: eval_defs)
  show ?thesis
    using live_promotion_once [OF h(1) h(2) h(3) h(4) h(5) h(6) p] h(3) h(7) p
    by (simp add: notifications_def)
qed

subsection \<open>The paper invariant and how a track gets blocked\<close>

lemma closePaperTrade_frame:
  "fsmState (closePaperTrade clk dir st x reason) = fsmState st"
  "threshold (closePaperTrade clk dir st x reason) = threshold st"
  "lastBlockedAtMs (closePaperTrade clk dir st x reason) = lastBlockedAtMs st"
  "paperTrade (closePaperTrade clk dir st x reason) = None"
  by (simp_all add: closePaperTrade_def Let_def split: option.splits)

lemma openPaperTrade_frame:
  "fsmState (openPaperTrade clk dir st symbol p) = fsmState st"
  "threshold (openPaperTrade clk dir st symbol p) = threshold st"
  "lastBlockedAtMs (openPaperTrade clk dir st symbol p) = lastBlockedAtMs st"
  by (simp_all add: openPaperTrade_def Let_def split: option.splits)

lemma longUpdatePosition_frame:
  "fsmState (longUpdatePosition clk symbol ltp st) = fsmState st"
  "threshold (longUpdatePosition clk symbol ltp st) = threshold st"
  "lastBlockedAtMs (longUpdatePosition clk symbol ltp st) = lastBlockedAtMs st"
  "(paperTrade (longUpdatePosition clk symbol ltp st) = None) = (paperTrade st = None)"
  by (simp_all add: longUpdatePosition_def Let_def split: option.splits)

lemma shortUpdatePosition_frame:
  "fsmState (shortUpdatePosition clk symbol ltp st) = fsmState st"
  "threshold (shortUpdatePosition clk symbol ltp st) = threshold st"
  "lastBlockedAtMs (shortUpdatePosition clk symbol ltp st) = lastBlockedAtMs st"
  "(paperTrade (shortUpdatePosition clk symbol ltp st) = None) = (paperTrade st = None)"
  by (simp_all add: shortUpdatePosition_def Let_def split: option.splits)

lemma longFsmSwitch_paperInv:
  "paperInv LONG st \<Longrightarrow> paperInv LONG (longFsmSwitch clk symbol ltp now st)"
  by (auto simp: paperInv_def longFsmSwitch_def closePaperTrade_frame openPaperTrade_frame
        split: fsm.splits option.splits)

lemma shortFsmSwitch_paperInv:
  "paperInv SHORT st \<Longrightarrow> paperInv SHORT (shortFsmSwitch clk symbol ltp now st)"
  by (auto simp: paperInv_def shortFsmSwitch_def closePaperTrade_frame openPaperTrade_frame
        split: fsm.splits option.splits)

lemma longTick_paperInv: "paperInv LONG st \<Longrightarrow> paperInv LONG (longTick clk symbol ltp now st)"
proof -
  assume a: "paperInv LONG st"
  have 1: "paperInv LONG (longSafetyCheck st)"
    using a by (auto simp: paperInv_def longSafetyCheck_def)
  have 2: "paperInv LONG (longUpdatePosition clk symbol ltp (longSafetyCheck st))"
    using 1 by (simp add: paperInv_def longUpdatePosition_frame)
  show ?thesis using 2 longFsmSwitch_paperInv [OF 2] by (simp add: longTick_def Let_def)
qed

lemma shortTick_paperInv: "paperInv SHORT st \<Longrightarrow> paperInv SHORT (shortTick clk symbol ltp now st)"
proof -
  assume a: "paperInv SHORT st"
  have 1: "paperInv SHORT (shortSafetyCheck st)"
    using a by (auto simp: paperInv_def shortSafetyCheck_def)
  have 2: "paperInv SHORT (shortUpdatePosition clk symbol ltp (shortSafetyCheck st))"
    using 1 by (simp add: paperInv_def shortUpdatePosition_frame)
  show ?thesis using 2 shortFsmSwitch_paperInv [OF 2] by (simp add: shortTick_def Let_def)
qed

lemma tickTrack_paperInv: "paperInv dir st \<Longrightarrow> paperInv dir (tickTrack dir tk st)"
  by (cases tk; cases dir) (simp_all add: longTick_paperInv shortTick_paperInv)

lemma longFsmSwitch_enters:
  assumes "paperInv LONG st" and "threshold st \<noteq> Null" and "fsmState st \<noteq> NOPOSITION_BLOCKED"
    and "fsmState (longFsmSwitch clk symbol ltp now st) = NOPOSITION_BLOCKED"
  shows "lastBlockedAtMs (longFsmSwitch clk symbol ltp now st) = Some now
       \<and> threshold (longFsmSwitch clk symbol ltp now st) \<noteq> Null
       \<and> paperTrade (longFsmSwitch clk symbol ltp now st) = None"
  using assms
  by (auto simp: paperInv_def longFsmSwitch_def closePaperTrade_frame openPaperTrade_frame
        split: fsm.splits option.splits if_splits)

lemma shortFsmSwitch_enters:
  assumes "paperInv SHORT st" and "threshold st \<noteq> Null" and "fsmState st \<noteq> NOPOSITION_BLOCKED"
    and "fsmState (shortFsmSwitch clk symbol ltp now st) = NOPOSITION_BLOCKED"
  shows "lastBlockedAtMs (shortFsmSwitch clk symbol ltp now st) = Some now
       \<and> threshold (shortFsmSwitch clk symbol ltp now st) \<noteq> Null
       \<and> paperTrade (shortFsmSwitch clk symbol ltp now st) = None"
  using assms
  by (auto simp: paperInv_def shortFsmSwitch_def closePaperTrade_frame openPaperTrade_frame
        split: fsm.splits option.splits if_splits)

lemma tick_enters_blocked:
  assumes "paperInv dir st" and "fsmState st \<noteq> NOPOSITION_BLOCKED"
    and "fsmState (tickTrack dir (clk, symbol, ltp) st) = NOPOSITION_BLOCKED"
  shows "lastBlockedAtMs (tickTrack dir (clk, symbol, ltp) st) = Some clk
       \<and> threshold (tickTrack dir (clk, symbol, ltp) st) \<noteq> Null
       \<and> paperTrade (tickTrack dir (clk, symbol, ltp) st) = None"
proof (cases dir)
  case LONG
  define s1 where "s1 = longUpdatePosition clk symbol ltp (longSafetyCheck st)"
  have f: "fsmState s1 \<noteq> NOPOSITION_BLOCKED"
    using assms(2) by (auto simp: s1_def longUpdatePosition_frame longSafetyCheck_def)
  have i: "paperInv LONG s1"
    using assms(1) by (auto simp: LONG s1_def paperInv_def longUpdatePosition_frame longSafetyCheck_def)
  have t: "tickTrack dir (clk, symbol, ltp) st =
             (if threshold s1 = Null then s1 else longFsmSwitch clk symbol ltp clk s1)"
    by (simp add: LONG longTick_def s1_def Let_def)
  show ?thesis
  proof (cases "threshold s1 = Null")
    case True
    then show ?thesis using assms(3) f t by simp
  next
    case False
    then show ?thesis using assms(3) t longFsmSwitch_enters [OF i False f, of clk symbol ltp clk]
      by simp
  qed
next
  case SHORT
  define s1 where "s1 = shortUpdatePosition clk symbol ltp (shortSafetyCheck st)"
  have f: "fsmState s1 \<noteq> NOPOSITION_BLOCKED"
    using assms(2) by (auto simp: s1_def shortUpdatePosition_frame shortSafetyCheck_def)
  have i: "paperInv SHORT s1"
    using assms(1) by (auto simp: SHORT s1_def paperInv_def shortUpdatePosition_frame shortSafetyCheck_def)
  have t: "tickTrack dir (clk, symbol, ltp) st =
             (if threshold s1 = Null then s1 else shortFsmSwitch clk symbol ltp clk s1)"
    by (simp add: SHORT shortTick_def s1_def Let_def)
  show ?thesis
  proof (cases "threshold s1 = Null")
    case True
    then show ?thesis using assms(3) f t by simp
  next
    case False
    then show ?thesis using assms(3) t shortFsmSwitch_enters [OF i False f, of clk symbol ltp clk]
      by simp
  qed
qed

lemma armTrack_paperInv: "paperInv dir st \<Longrightarrow> paperInv dir (armTrack st r thr now)"
  by (cases dir) (auto simp: paperInv_def armTrack_def)

lemma resetTrack_paperInv:
  "paperInv dir (resetTrack (closeForReset clk dir' prices st))"
  by (auto simp: paperInv_def resetTrack_def closeForReset_def closePaperTrade_frame Let_def
        split: option.splits)

lemma restoreTrack_paperInv: "paperInv dir (restoreTrack saved initTrack)"
  by (auto simp: paperInv_def restoreTrack_def initTrack_def split: option.splits)

lemma initTrack_paperInv: "paperInv dir initTrack"
  by (simp add: paperInv_def initTrack_def)

lemma processWebhookSignal_paperInv:
  "enginePaperInv e \<Longrightarrow> enginePaperInv (processWebhookSignal clk sg e)"
  by (auto simp: enginePaperInv_def processWebhookSignal_def Let_def armTrack_paperInv
        split: option.splits)

lemma reachable_paperInv: "reachable e \<Longrightarrow> enginePaperInv e"
proof (induction rule: reachable.induct)
  case (startup clk saved)
  show ?case
    by (auto simp: enginePaperInv_def newEngine_def loadState_def restoreTrack_paperInv
          initTrack_paperInv split: option.splits)
next
  case (tick e clk symbol price)
  then show ?case
    using longTick_paperInv [of "longState e" clk symbol price clk]
      shortTick_paperInv [of "shortState e" clk symbol price clk]
    by (simp add: enginePaperInv_def longState_updateLtp shortState_updateLtp)
next
  case (signal e clk sg)
  then show ?case by (simp add: processWebhookSignal_paperInv)
next
  case (resetCheck e tz clk)
  then show ?case
    by (simp add: enginePaperInv_def checkDailyReset_def performDailyReset_def resetTrack_paperInv)
next
  case (resetNow e clk)
  show ?case by (simp add: enginePaperInv_def performDailyReset_def resetTrack_paperInv)
next
  case (autoSignals e clk)
  then show ?case
    by (auto simp: generateAutoSignals_def processWebhookSignal_paperInv split: option.splits)
next
  case (liveOpenLong e clk dir price symbol)
  then show ?case by (simp add: enginePaperInv_def paperInv_def)
next
  case (liveOpenShort e clk dir price symbol)
  then show ?case by (simp add: enginePaperInv_def paperInv_def)
next
  case (liveCloseLong e clk dir price reason)
  then show ?case by (simp add: enginePaperInv_def paperInv_def)
next
  case (liveCloseShort e clk dir price reason)
  then show ?case by (simp add: enginePaperInv_def paperInv_def)
qed


subsection \<open>The lockout of a blocked track\<close>

text \<open>
  A tick can only block a track such that the anchor is the tick's clock reading, the
  threshold is set and no paper trade is open (\<open>tick_enters_blocked\<close>, for a track that
  satisfies the paper invariant, as every reachable track does by
  \<open>reachable_paperInv\<close>). These are the assumptions on the blocked track below; the
  anchor is not 0 because the clock is past the epoch.
\<close>

lemma tick_while_blocked:
  assumes "fsmState st = NOPOSITION_BLOCKED" and "lastBlockedAtMs st = Some b"
    and "paperTrade st = None" and "clk div 60000 \<le> b div 60000"
  shows "tickTrack dir (clk, symbol, ltp) st = st"
  using assms
  by (cases dir)
    (simp_all add: longTick_def longSafetyCheck_def longUpdatePosition_def longFsmSwitch_def
       shortTick_def shortSafetyCheck_def shortUpdatePosition_def shortFsmSwitch_def
       isFirstSecondNextMinute_def)

lemma runTicks_while_blocked:
  assumes "fsmState st = NOPOSITION_BLOCKED" and "lastBlockedAtMs st = Some b"
    and "paperTrade st = None"
  shows "\<forall>tk\<in>set tks. fst tk div 60000 \<le> b div 60000 \<Longrightarrow> runTicks dir st tks = st"
proof (induction tks)
  case Nil
  show ?case by simp
next
  case (Cons tk tks)
  obtain clk symbol ltp where tk: "tk = (clk, symbol, ltp)" by (cases tk) auto
  from Cons.prems have "clk div 60000 \<le> b div 60000" by (simp add: tk)
  from tick_while_blocked [OF assms this] Cons show ?case by (simp add: tk)
qed

lemma tick_after_block:
  assumes "fsmState st = NOPOSITION_BLOCKED" and "lastBlockedAtMs st = Some b"
    and "paperTrade st = None" and "b \<noteq> 0" and "threshold st \<noteq> Null"
    and "clk div 60000 > b div 60000"
  shows "tickTrack dir (clk, symbol, ltp) st =
           (if breakout dir ltp (threshold st)
            then st\<lparr>fsmState := posState dir,
                    paperTrade :=
                      Some \<lparr>p_id = PaperId dir symbol clk, p_symbol = symbol, p_direction = dir,
                            p_entryPrice = ltp, p_currentPrice = ltp,
                            p_quantity = POSITION_SIZE / ltp, p_unrealizedPnl = 0,
                            p_enteredAt = clk\<rparr>,
                    liveState := (liveState st)
                      \<lparr>pendingPaperTrade :=
                         Some \<lparr>pend_entryPrice = ltp, pend_quantity = POSITION_SIZE / ltp,
                               pend_lot = 1, pend_openedAt = clk\<rparr>\<rparr>\<rparr>
            else st\<lparr>lastBlockedAtMs := Some clk\<rparr>)"
  using assms
  by (cases dir)
    (simp_all add: longTick_def longSafetyCheck_def longUpdatePosition_def longFsmSwitch_def
       shortTick_def shortSafetyCheck_def shortUpdatePosition_def shortFsmSwitch_def
       isFirstSecondNextMinute_def openPaperTrade_def Let_def)

lemma runTicks_append: "runTicks dir st (xs @ ys) = runTicks dir (runTicks dir st xs) ys"
  by (induction xs arbitrary: st) simp_all

text \<open>
  Claim C3, as amended. As long as only ticks reach a track that entered
  \<open>NOPOSITION_BLOCKED\<close> at \<open>lastBlockedAtMs = b\<close> (no signal and no daily reset in
  between), the track is left as it is by every tick at a time \<open>t\<close> with
  \<open>t div 60000 \<le> b div 60000\<close>, so it does not re-enter a position on any of them. The
  first tick with \<open>t div 60000 > b div 60000\<close> evaluates the breakout condition on the
  price of that tick: if it holds the track enters the position with a paper trade opened
  at that price, otherwise it stays blocked and only \<open>lastBlockedAtMs\<close> becomes \<open>t\<close>.
  This holds for both directions.
\<close>

theorem blocked_until_next_minute:
  assumes "fsmState st = NOPOSITION_BLOCKED" and "lastBlockedAtMs st = Some b"
    and "paperTrade st = None"
    and "\<forall>tk\<in>set tks. fst tk div 60000 \<le> b div 60000"
  shows "runTicks dir st tks = st
       \<and> (b \<noteq> 0 \<and> threshold st \<noteq> Null \<and> clk div 60000 > b div 60000 \<longrightarrow>
          runTicks dir st (tks @ [(clk, symbol, ltp)]) =
           (if breakout dir ltp (threshold st)
            then st\<lparr>fsmState := posState dir,
                    paperTrade :=
                      Some \<lparr>p_id = PaperId dir symbol clk, p_symbol = symbol, p_direction = dir,
                            p_entryPrice = ltp, p_currentPrice = ltp,
                            p_quantity = POSITION_SIZE / ltp, p_unrealizedPnl = 0,
                            p_enteredAt = clk\<rparr>,
                    liveState := (liveState st)
                      \<lparr>pendingPaperTrade :=
                         Some \<lparr>pend_entryPrice = ltp, pend_quantity = POSITION_SIZE / ltp,
                               pend_lot = 1, pend_openedAt = clk\<rparr>\<rparr>\<rparr>
            else st\<lparr>lastBlockedAtMs := Some clk\<rparr>))"
  using runTicks_while_blocked [OF assms(1-3) assms(4), of dir]
    tick_after_block [OF assms(1-3), of clk dir symbol ltp]
  by (simp add: runTicks_append)



theorem blocked_until_next_minute_witness:
  "fsmState blockedLongTrack = NOPOSITION_BLOCKED
   \<and> lastBlockedAtMs blockedLongTrack = Some 60000
   \<and> runTicks LONG blockedLongTrack [(60500, ''BTCUSDT'', 150), (119999, ''BTCUSDT'', 150)]
       = blockedLongTrack
   \<and> fsmState (runTicks LONG blockedLongTrack
        ([(60500, ''BTCUSDT'', 150), (119999, ''BTCUSDT'', 150)] @ [(120000, ''BTCUSDT'', 101)]))
       = BUYPOSITION
   \<and> runTicks LONG blockedLongTrack
        ([(60500, ''BTCUSDT'', 150), (119999, ''BTCUSDT'', 150)] @ [(120000, ''BTCUSDT'', 99)])
       = blockedLongTrack\<lparr>lastBlockedAtMs := Some 120000\<rparr>"
proof -
  have h: "fsmState blockedLongTrack = NOPOSITION_BLOCKED"
    "lastBlockedAtMs blockedLongTrack = Some 60000" "paperTrade blockedLongTrack = None"
    "threshold blockedLongTrack = Num 100"
    by (simp_all add: blockedLongTrack_def initTrack_def)
  have t: "\<forall>tk\<in>set [(60500, ''BTCUSDT'', 150), (119999, ''BTCUSDT'', 150 :: real)].
             fst tk div 60000 \<le> (60000 :: nat) div 60000"
    by simp
  let ?tks = "[(60500, ''BTCUSDT'', 150), (119999, ''BTCUSDT'', 150)] :: tick list"
  note a = blocked_until_next_minute [OF h(1) h(2) h(3) t, of LONG 120000 "''BTCUSDT''" 101]
  note b = blocked_until_next_minute [OF h(1) h(2) h(3) t, of LONG 120000 "''BTCUSDT''" 99]
  have r: "runTicks LONG blockedLongTrack ?tks = blockedLongTrack"
    using a by (rule conjunct1)
  have e: "fsmState (runTicks LONG blockedLongTrack (?tks @ [(120000, ''BTCUSDT'', 101)]))
             = BUYPOSITION"
    using a [THEN conjunct2] h(4) by simp
  have s: "runTicks LONG blockedLongTrack (?tks @ [(120000, ''BTCUSDT'', 99)])
             = blockedLongTrack\<lparr>lastBlockedAtMs := Some 120000\<rparr>"
    using b [THEN conjunct2] h(4) by simp
  show ?thesis using h(1) h(2) r e s by blast
qed

subsection \<open>The scenario 100, 101, 99 on the LONG track\<close>

lemma long_c1_tick1:
  assumes "fsmState st = NOPOSITION_SIGNAL" and "threshold st = Num 100" and "paperTrade st = None"
  shows "longTick clk1 symbol 100 clk1 st =
           st\<lparr>fsmState := NOPOSITION_BLOCKED, lastBlockedAtMs := Some clk1\<rparr>"
  using assms
  by (simp add: longTick_def longSafetyCheck_def longUpdatePosition_def longFsmSwitch_def)

lemma long_c1_tick3:
  assumes "fsmState st = BUYPOSITION" and "threshold st = Num 100"
    and "paperTrade st = Some pt" and "p_symbol pt = symbol" and "p_entryPrice pt = 101"
    and "p_quantity pt = POSITION_SIZE / 101"
  shows "fsmState (longTick clk3 symbol 99 clk3 st) = NOPOSITION_BLOCKED
       \<and> lastBlockedAtMs (longTick clk3 symbol 99 clk3 st) = Some clk3
       \<and> paperTrade (longTick clk3 symbol 99 clk3 st) = None
       \<and> paperTrades (longTick clk3 symbol 99 clk3 st) =
           \<lparr>c_trade = pt\<lparr>p_currentPrice := 99, p_unrealizedPnl := - (20 / 101)\<rparr>,
            c_exitPrice = 99, c_realizedPnl = - (20 / 101), c_reason = ''Stop Loss'',
            c_closedAt = clk3\<rparr> # paperTrades st"
proof -
  define s1 where "s1 = longUpdatePosition clk3 symbol 99 st"
  have safety: "longSafetyCheck st = st" using assms(3) by (simp add: longSafetyCheck_def)
  have u: "unrealizedAt LONG pt 99 = - (20 / 101)"
    by (simp add: unrealizedAt_def assms(5,6) POSITION_SIZE_def)
  have s1: "fsmState s1 = BUYPOSITION" "threshold s1 = Num 100"
    "paperTrade s1 = Some (pt\<lparr>p_currentPrice := 99, p_unrealizedPnl := - (20 / 101)\<rparr>)"
    "paperTrades s1 = paperTrades st"
    using assms(1-4) u by (simp_all add: s1_def longUpdatePosition_eq [OF assms(3,4)])
  have t: "longTick clk3 symbol 99 clk3 st =
             (closePaperTrade clk3 LONG s1 99 ''Stop Loss'')
               \<lparr>fsmState := NOPOSITION_BLOCKED, lastBlockedAtMs := Some clk3\<rparr>"
    using s1(1,2) by (simp add: longTick_def safety s1_def [symmetric] Let_def longFsmSwitch_def)
  have r: "paperRealized LONG (pt\<lparr>p_currentPrice := 99, p_unrealizedPnl := - (20 / 101)\<rparr>) 99
             = - (20 / 101)"
    by (simp add: paperRealized_def assms(5,6) POSITION_SIZE_def)
  show ?thesis
    using closePaperTrade_paperTrades [OF s1(3), of clk3 LONG 99 "''Stop Loss''"] r s1(4)
    by (simp add: t closePaperTrade_frame)
qed

text \<open>
  Claim C1, as amended. On a LONG track in \<open>NOPOSITION_SIGNAL\<close> with threshold 100 and no
  open paper trade, the ticks 100, 101, 99 for a tracked symbol first block the track (100
  is not above the threshold). If the tick at 101 arrives in a later calendar minute than
  the tick at 100, the track enters at 101 (\<open>BUYPOSITION\<close>, paper trade with entry price
  101) and the tick at 99 stops it out: \<open>NOPOSITION_BLOCKED\<close>, the paper trade closed
  with a negative realized PnL.
\<close>

theorem long_100_101_99_enters_and_stops:
  assumes "includes_str (toUpperCase symbol) ''BTC''"
    and "fsmState (longState e) = NOPOSITION_SIGNAL" and "threshold (longState e) = Num 100"
    and "paperTrade (longState e) = None"
    and "clk1 \<noteq> 0" and "clk2 div 60000 > clk1 div 60000"
  shows "fsmState (longState (updateLtp clk1 symbol 100 e)) = NOPOSITION_BLOCKED
       \<and> fsmState (longState (updateLtp clk2 symbol 101 (updateLtp clk1 symbol 100 e)))
           = BUYPOSITION
       \<and> paperTrade (longState (updateLtp clk2 symbol 101 (updateLtp clk1 symbol 100 e))) =
           Some \<lparr>p_id = PaperId LONG symbol clk2, p_symbol = symbol, p_direction = LONG,
                 p_entryPrice = 101, p_currentPrice = 101,
                 p_quantity = POSITION_SIZE / 101, p_unrealizedPnl = 0, p_enteredAt = clk2\<rparr>
       \<and> fsmState (longState (updateLtp clk3 symbol 99
            (updateLtp clk2 symbol 101 (updateLtp clk1 symbol 100 e)))) = NOPOSITION_BLOCKED
       \<and> paperTrade (longState (updateLtp clk3 symbol 99
            (updateLtp clk2 symbol 101 (updateLtp clk1 symbol 100 e)))) = None
       \<and> paperTrades (longState (updateLtp clk3 symbol 99
            (updateLtp clk2 symbol 101 (updateLtp clk1 symbol 100 e)))) =
           \<lparr>c_trade =
              \<lparr>p_id = PaperId LONG symbol clk2, p_symbol = symbol, p_direction = LONG,
               p_entryPrice = 101, p_currentPrice = 99,
               p_quantity = POSITION_SIZE / 101, p_unrealizedPnl = - (20 / 101),
               p_enteredAt = clk2\<rparr>,
            c_exitPrice = 99, c_realizedPnl = - (20 / 101), c_reason = ''Stop Loss'',
            c_closedAt = clk3\<rparr> # paperTrades (longState e)
       \<and> - (20 / 101) < (0 :: real)"
proof -
  let ?st = "longState e"
  define t1 where "t1 = ?st\<lparr>fsmState := NOPOSITION_BLOCKED, lastBlockedAtMs := Some clk1\<rparr>"
  let ?pt = "\<lparr>p_id = PaperId LONG symbol clk2, p_symbol = symbol, p_direction = LONG,
                 p_entryPrice = 101, p_currentPrice = 101,
                 p_quantity = POSITION_SIZE / 101, p_unrealizedPnl = 0, p_enteredAt = clk2\<rparr>"
  define t2 where "t2 = tickTrack LONG (clk2, symbol, 101) t1"
  have e1: "longState (updateLtp clk1 symbol 100 e) = t1"
    by (simp add: longState_updateLtp assms(1) t1_def long_c1_tick1 [OF assms(2-4)])
  have b: "fsmState t1 = NOPOSITION_BLOCKED" "lastBlockedAtMs t1 = Some clk1"
    "paperTrade t1 = None" "threshold t1 = Num 100" "paperTrades t1 = paperTrades ?st"
    using assms(3,4) by (simp_all add: t1_def)
  have t2: "fsmState t2 = BUYPOSITION" "paperTrade t2 = Some ?pt" "threshold t2 = Num 100"
    "paperTrades t2 = paperTrades ?st"
  proof -
    have thr: "threshold t1 \<noteq> Null" by (simp add: b(4))
    have eq: "t2 = t1\<lparr>fsmState := BUYPOSITION, paperTrade := Some ?pt,
                    liveState := (liveState t1)
                      \<lparr>pendingPaperTrade :=
                         Some \<lparr>pend_entryPrice = 101, pend_quantity = POSITION_SIZE / 101,
                               pend_lot = 1, pend_openedAt = clk2\<rparr>\<rparr>\<rparr>"
      unfolding t2_def tick_after_block [OF b(1) b(2) b(3) assms(5) thr assms(6)]
      by (simp add: b(4))
    show "fsmState t2 = BUYPOSITION" "paperTrade t2 = Some ?pt" "threshold t2 = Num 100"
      "paperTrades t2 = paperTrades ?st"
      by (simp_all add: eq b(4) b(5))
  qed
  have e2: "longState (updateLtp clk2 symbol 101 (updateLtp clk1 symbol 100 e)) = t2"
    by (simp add: longState_updateLtp [of clk2] assms(1) e1 t2_def)
  have e3: "longState (updateLtp clk3 symbol 99
            (updateLtp clk2 symbol 101 (updateLtp clk1 symbol 100 e))) =
            longTick clk3 symbol 99 clk3 t2"
    by (simp add: longState_updateLtp [of clk3] assms(1) e2)
  note c = long_c1_tick3 [OF t2(1) t2(3) t2(2), of symbol clk3]
  show ?thesis using e1 b(1) e2 t2 e3 c by simp
qed


theorem long_100_101_99_enters_and_stops_witness:
  "fsmState (longState (processWebhookSignal 1000 buySignal100 (newEngine 1000 None)))
     = NOPOSITION_SIGNAL
   \<and> fsmState (longState (updateLtp 120000 ''BTCUSDT'' 101 (updateLtp 60000 ''BTCUSDT'' 100
        (processWebhookSignal 1000 buySignal100 (newEngine 1000 None))))) = BUYPOSITION
   \<and> fsmState (longState (updateLtp 120001 ''BTCUSDT'' 99
        (updateLtp 120000 ''BTCUSDT'' 101 (updateLtp 60000 ''BTCUSDT'' 100
          (processWebhookSignal 1000 buySignal100 (newEngine 1000 None))))))
      = NOPOSITION_BLOCKED
   \<and> map c_realizedPnl (paperTrades (longState (updateLtp 120001 ''BTCUSDT'' 99
        (updateLtp 120000 ''BTCUSDT'' 101 (updateLtp 60000 ''BTCUSDT'' 100
          (processWebhookSignal 1000 buySignal100 (newEngine 1000 None)))))))
      = [- (20 / 101)]"
proof -
  let ?e = "processWebhookSignal 1000 buySignal100 (newEngine 1000 None)"
  have h: "fsmState (longState ?e) = NOPOSITION_SIGNAL" "threshold (longState ?e) = Num 100"
    "paperTrade (longState ?e) = None" "paperTrades (longState ?e) = []"
    by (simp_all add: buySignal100_arms_long initTrack_def)
  have c: "(60000 :: nat) \<noteq> 0" "(120000 :: nat) div 60000 > 60000 div 60000"
    by simp_all
  show ?thesis
    using long_100_101_99_enters_and_stops [OF isBtc_BTCUSDT h(1) h(2) h(3) c, of 120001] h
    by simp
qed

text \<open>
  The claim as stated, with no condition on the times, fails: when the three ticks arrive
  in one calendar minute, the tick at 100 blocks the track and the tick at 101 finds it
  blocked, so no paper trade is ever opened or closed.
\<close>

theorem long_100_101_99_same_minute_counterexample:
  "fsmState (longState (processWebhookSignal 1000 buySignal100 (newEngine 1000 None)))
     = NOPOSITION_SIGNAL
   \<and> threshold (longState (processWebhookSignal 1000 buySignal100 (newEngine 1000 None)))
     = Num 100
   \<and> fsmState (longState (updateLtp 60001 ''BTCUSDT'' 101 (updateLtp 60000 ''BTCUSDT'' 100
        (processWebhookSignal 1000 buySignal100 (newEngine 1000 None)))))
     = NOPOSITION_BLOCKED
   \<and> paperTrade (longState (updateLtp 60001 ''BTCUSDT'' 101 (updateLtp 60000 ''BTCUSDT'' 100
        (processWebhookSignal 1000 buySignal100 (newEngine 1000 None))))) = None
   \<and> paperTrades (longState (updateLtp 60002 ''BTCUSDT'' 99
        (updateLtp 60001 ''BTCUSDT'' 101 (updateLtp 60000 ''BTCUSDT'' 100
          (processWebhookSignal 1000 buySignal100 (newEngine 1000 None)))))) = []"
  by (simp add: longState_updateLtp isBtc_BTCUSDT buySignal100_arms_long initTrack_def
        long_defs live_defs paper_defs Let_def)

subsection \<open>Thresholds set by signals\<close>

lemma isSell_not_isBuy: "isSell sg \<Longrightarrow> \<not> isBuy sg"
  by (auto simp: isSell_def isBuy_def)

lemma threshold_armTrack: "threshold (armTrack st r thr now) = thr"
  by (simp add: armTrack_def)

lemma ltp_after_tick:
  "ltpBySymbol (updateLtp clk symbol price e) symbol = Some price"
  by (simp add: updateLtp_def processLongTickTransition_def processShortTickTransition_def Let_def)

text \<open>
  Claim C2, as amended. For every signal that \<^verbatim>\<open>processWebhookSignal\<close> processes for the
  tracked instrument: if it resolves to LONG, the threshold of the LONG track becomes the
  stop price of the signal when that is given and not 0, and otherwise (no stop price, or
  the stop price 0) the price recorded for the upper-cased symbol, which is
  \<^verbatim>\<open>undefined\<close> when none is recorded; if it resolves to SHORT, the threshold of the
  SHORT track becomes that recorded price whatever the stop price of the signal is. A
  signal cannot resolve to both directions (\<open>isSell_not_isBuy\<close>).
\<close>

theorem signal_sets_threshold:
  assumes "sg_symbol sg = Some symbol" and "symbol \<noteq> []"
    and "includes_str (toUpperCase symbol) ''BTC''"
  shows "(isBuy sg \<and> sg_stoppx sg = Some x \<and> x \<noteq> 0 \<longrightarrow>
            threshold (longState (processWebhookSignal clk sg e)) = Num x)
       \<and> (isBuy sg \<and> (sg_stoppx sg = None \<or> sg_stoppx sg = Some 0) \<longrightarrow>
            threshold (longState (processWebhookSignal clk sg e)) =
              ofLookup (ltpBySymbol e (toUpperCase symbol)))
       \<and> (isSell sg \<longrightarrow>
            threshold (shortState (processWebhookSignal clk sg e)) =
              ofLookup (ltpBySymbol e (toUpperCase symbol)))"
  using assms isSell_not_isBuy [of sg]
  by (auto simp: processWebhookSignal_def Let_def threshold_armTrack)

theorem signal_sets_threshold_witness:
  "isSell sellSignal50
   \<and> ltpBySymbol (updateLtp 1000 ''BTCUSDT'' 60 (newEngine 1000 None)) ''BTCUSDT'' = Some 60
   \<and> threshold (shortState (processWebhookSignal 2000 sellSignal50
        (updateLtp 1000 ''BTCUSDT'' 60 (newEngine 1000 None)))) = Num 60
   \<and> isBuy buySignal100
   \<and> threshold (longState (processWebhookSignal 2000 buySignal100
        (updateLtp 1000 ''BTCUSDT'' 60 (newEngine 1000 None)))) = Num 100"
proof -
  let ?e = "updateLtp 1000 ''BTCUSDT'' 60 (newEngine 1000 None)"
  have u: "toUpperCase ''BTCUSDT'' = ''BTCUSDT''" by (simp add: str_defs)
  have s: "sg_symbol sellSignal50 = Some ''BTCUSDT''" "isSell sellSignal50"
    by (simp_all add: sellSignal50_def isSell_def)
  have b: "sg_symbol buySignal100 = Some ''BTCUSDT''" "isBuy buySignal100"
    "sg_stoppx buySignal100 = Some 100"
    by (simp_all add: buySignal100_def isBuy_def)
  have n: "''BTCUSDT'' \<noteq> []" by simp
  have l: "ltpBySymbol ?e ''BTCUSDT'' = Some 60" by (rule ltp_after_tick)
  show ?thesis
    using signal_sets_threshold [OF s(1) n isBtc_BTCUSDT, of 0 2000 ?e]
      signal_sets_threshold [OF b(1) n isBtc_BTCUSDT, of 100 2000 ?e] s(2) b(2,3) l
    by (simp add: u)
qed

text \<open>
  The claim as stated fails for a LONG signal whose stop price is given as 0: the source
  reads \<^verbatim>\<open>stoppx || ltp\<close>, so the threshold becomes the recorded price (60), not 0.
\<close>

theorem long_stop_price_zero_counterexample:
  "isBuy buySignal0
   \<and> sg_stoppx buySignal0 = Some 0
   \<and> ltpBySymbol (updateLtp 1000 ''BTCUSDT'' 60 (newEngine 1000 None)) ''BTCUSDT'' = Some 60
   \<and> threshold (longState (processWebhookSignal 2000 buySignal0
        (updateLtp 1000 ''BTCUSDT'' 60 (newEngine 1000 None)))) = Num 60"
proof -
  let ?e = "updateLtp 1000 ''BTCUSDT'' 60 (newEngine 1000 None)"
  have u: "toUpperCase ''BTCUSDT'' = ''BTCUSDT''" by (simp add: str_defs)
  have l: "ltpBySymbol ?e ''BTCUSDT'' = Some 60" by (rule ltp_after_tick)
  have b: "isBuy buySignal0" "sg_stoppx buySignal0 = Some 0" "sg_symbol buySignal0 = Some ''BTCUSDT''"
    by (simp_all add: buySignal0_def isBuy_def)
  have "threshold (longState (processWebhookSignal 2000 buySignal0 ?e)) = Num 60"
    using b l isBtc_BTCUSDT
    by (simp add: processWebhookSignal_def Let_def threshold_armTrack u)
  then show ?thesis using b l by simp
qed

subsection \<open>Daily reset\<close>

lemma updateLtp_shared:
  "lastResetDate (updateLtp clk symbol price e) = lastResetDate e"
  "ltpBySymbol (updateLtp clk symbol price e) = (ltpBySymbol e)(symbol \<mapsto> price)"
  by (simp_all add: updateLtp_def processLongTickTransition_def processShortTickTransition_def
        Let_def)

lemma processWebhookSignal_shared:
  "lastResetDate (processWebhookSignal clk sg e) = lastResetDate e"
  "ltpBySymbol (processWebhookSignal clk sg e) = ltpBySymbol e"
  by (simp_all add: processWebhookSignal_def Let_def split: option.splits)

lemma newEngine_None_shared:
  "lastResetDate (newEngine clk None) = None"
  "ltpBySymbol (newEngine clk None) = Map.empty"
  by (simp_all add: newEngine_def loadState_def)

lemma dateStr_minute:
  "dateStr tz clk = ((int clk + istOffset) div 60000 + tz) div 1440"
proof -
  have "(int clk + tz * 60000 + istOffset) div 86400000
        = ((int clk + istOffset + tz * 60000) div 60000) div 1440"
    by (simp add: zdiv_zmult2_eq [symmetric] add.commute add.left_commute)
  then show ?thesis by (simp add: dateStr_def)
qed

lemma same_minute_same_date:
  "(int clk1 + istOffset) div 60000 = (int clk2 + istOffset) div 60000 \<Longrightarrow>
   dateStr tz clk1 = dateStr tz clk2"
  by (simp add: dateStr_minute)

lemma performDailyReset_fields:
  "lastResetTimestamp (performDailyReset clk e) = clk"
  "timers (performDailyReset clk e) = timers e @ [clk + 5000]"
  "lastResetDate (performDailyReset clk e) = lastResetDate e"
  by (simp_all add: performDailyReset_def)

lemma checkDailyReset_after_reset:
  "lastResetDate e = Some (dateStr tz clk) \<Longrightarrow> checkDailyReset tz clk e = e"
  by (simp add: checkDailyReset_def)

text \<open>
  Claim C7. Two reset checks in the 05:30 trigger window of one calendar day (the same
  date string; two readings in one minute have the same date by
  \<open>same_minute_same_date\<close>) leave the engine in the state the first check alone
  produces. When the first check performs the reset, \<open>lastResetTimestamp\<close> is the clock
  reading of the first check and one auto-signal timer has been added; the second check
  is stopped by \<open>lastResetDate\<close>, which ticks and signals in between leave alone
  (\<open>updateLtp_shared\<close>, \<open>processWebhookSignal_shared\<close>,
  \<open>checkDailyReset_after_reset\<close>).
\<close>

theorem daily_reset_idempotent:
  assumes "istHours clk1 = 5" and "istMinutes clk1 = 30"
    and "istHours clk2 = 5" and "istMinutes clk2 = 30"
    and "dateStr tz clk1 = dateStr tz clk2"
  shows "checkDailyReset tz clk2 (checkDailyReset tz clk1 e) = checkDailyReset tz clk1 e
       \<and> (lastResetDate e \<noteq> Some (dateStr tz clk1) \<longrightarrow>
            checkDailyReset tz clk1 e =
              (performDailyReset clk1 e)\<lparr>lastResetDate := Some (dateStr tz clk1)\<rparr>
            \<and> lastResetTimestamp (checkDailyReset tz clk2 (checkDailyReset tz clk1 e)) = clk1
            \<and> timers (checkDailyReset tz clk2 (checkDailyReset tz clk1 e)) =
                timers e @ [clk1 + 5000])"
  using assms by (simp add: checkDailyReset_def performDailyReset_fields)

lemma longState_checkDailyReset:
  "longState (checkDailyReset tz clk e) =
     (if istHours clk = 5 \<and> istMinutes clk \<ge> 30 \<and> istMinutes clk < 31
         \<and> lastResetDate e \<noteq> Some (dateStr tz clk)
      then resetTrack (closeForReset clk LONG (ltpBySymbol e) (longState e))
      else longState e)"
  by (simp add: checkDailyReset_def performDailyReset_def)

lemma paperTrades_resetTrack: "paperTrades (resetTrack st) = paperTrades st"
  by (simp add: resetTrack_def)

lemma promoted_engine_paperTrades:
  "map c_reason (paperTrades (longState (checkDailyReset 0 4000
     (updateLtp 3000 ''BTCUSDT'' 102 (updateLtp 2000 ''BTCUSDT'' 101
       (processWebhookSignal 1000 buySignal100 (newEngine 1000 None))))))) = [''Daily Reset'']"
proof -
  let ?e = "updateLtp 3000 ''BTCUSDT'' 102 (updateLtp 2000 ''BTCUSDT'' 101
       (processWebhookSignal 1000 buySignal100 (newEngine 1000 None)))"
  have w: "istHours 4000 = 5" "istMinutes 4000 = 30"
    by (simp_all add: istHours_def istMinutes_def istOffset_def)
  have d: "lastResetDate ?e = None"
    by (simp add: updateLtp_shared processWebhookSignal_shared newEngine_None_shared)
  have l: "ltpBySymbol ?e ''BTCUSDT'' = Some 102"
    by (simp add: updateLtp_shared)
  have p: "map c_reason (paperTrades (closeForReset 4000 LONG (ltpBySymbol ?e) (longState ?e)))
             = [''Daily Reset'']"
    unfolding closeForReset_def
    by (simp add: l longState_updateLtp isBtc_BTCUSDT buySignal100_arms_long initTrack_def
          long_defs live_defs paper_defs Let_def)
  show ?thesis
    by (simp add: longState_checkDailyReset w d paperTrades_resetTrack p)
qed

theorem daily_reset_idempotent_witness:
  "istHours 4000 = 5 \<and> istMinutes 4000 = 30 \<and> istHours 5000 = 5 \<and> istMinutes 5000 = 30
   \<and> dateStr 0 4000 = dateStr 0 5000
   \<and> checkDailyReset 0 5000 (checkDailyReset 0 4000
        (updateLtp 3000 ''BTCUSDT'' 102 (updateLtp 2000 ''BTCUSDT'' 101
          (processWebhookSignal 1000 buySignal100 (newEngine 1000 None)))))
      = checkDailyReset 0 4000
        (updateLtp 3000 ''BTCUSDT'' 102 (updateLtp 2000 ''BTCUSDT'' 101
          (processWebhookSignal 1000 buySignal100 (newEngine 1000 None))))
   \<and> lastResetTimestamp (checkDailyReset 0 5000 (checkDailyReset 0 4000
        (updateLtp 3000 ''BTCUSDT'' 102 (updateLtp 2000 ''BTCUSDT'' 101
          (processWebhookSignal 1000 buySignal100 (newEngine 1000 None)))))) = 4000
   \<and> map c_reason (paperTrades (longState (checkDailyReset 0 5000 (checkDailyReset 0 4000
        (updateLtp 3000 ''BTCUSDT'' 102 (updateLtp 2000 ''BTCUSDT'' 101
          (processWebhookSignal 1000 buySignal100 (newEngine 1000 None)))))))) = [''Daily Reset'']"
proof -
  let ?e = "updateLtp 3000 ''BTCUSDT'' 102 (updateLtp 2000 ''BTCUSDT'' 101
          (processWebhookSignal 1000 buySignal100 (newEngine 1000 None)))"
  have w: "istHours 4000 = 5" "istMinutes 4000 = 30" "istHours 5000 = 5" "istMinutes 5000 = 30"
    "dateStr 0 4000 = dateStr 0 5000"
    by (simp_all add: istHours_def istMinutes_def dateStr_def istOffset_def)
  have d: "lastResetDate ?e \<noteq> Some (dateStr 0 4000)"
    by (simp add: updateLtp_shared processWebhookSignal_shared newEngine_None_shared)
  note i = daily_reset_idempotent [OF w, of ?e]
  have 1: "checkDailyReset 0 5000 (checkDailyReset 0 4000 ?e) = checkDailyReset 0 4000 ?e"
    using i by (rule conjunct1)
  have 2: "lastResetTimestamp (checkDailyReset 0 5000 (checkDailyReset 0 4000 ?e)) = 4000"
    using i [THEN conjunct2] d by blast
  have 3: "map c_reason (paperTrades (longState
             (checkDailyReset 0 5000 (checkDailyReset 0 4000 ?e)))) = [''Daily Reset'']"
    unfolding 1 by (rule promoted_engine_paperTrades)
  show ?thesis using w 1 2 3 by blast
qed

subsection \<open>The realized paper PnL in the total PnL\<close>



















subsection \<open>A signal re-arms a blocked track\<close>

lemma armTrack_fields:
  "fsmState (armTrack st r thr now) =
     (if fsmState st = NOPOSITION \<or> fsmState st = NOPOSITION_BLOCKED
      then NOPOSITION_SIGNAL else fsmState st)"
  "paperTrade (armTrack st r thr now) = paperTrade st"
  "lastBlockedAtMs (armTrack st r thr now) = lastBlockedAtMs st"
  by (simp_all add: armTrack_def)

lemma longState_buySignal100:
  "\<exists>r. longState (processWebhookSignal clk buySignal100 e) = armTrack (longState e) r (Num 100) clk"
  by (auto simp: processWebhookSignal_def buySignal100_def isBuy_def isBtc_BTCUSDT Let_def)

text \<open>
  Without the condition that only ticks reach the track, the lockout statement fails: a
  signal moves a blocked track to \<open>NOPOSITION_SIGNAL\<close> and keeps \<open>lastBlockedAtMs\<close>, so
  a tick in the minute of the anchor enters the position. Blocked at 60000, BUY signal at
  60001, tick 101 at 60002.
\<close>

theorem signal_rearms_blocked_track_counterexample:
  "fsmState (longState (updateLtp 60000 ''BTCUSDT'' 100
      (processWebhookSignal 1000 buySignal100 (newEngine 1000 None)))) = NOPOSITION_BLOCKED
   \<and> lastBlockedAtMs (longState (updateLtp 60000 ''BTCUSDT'' 100
      (processWebhookSignal 1000 buySignal100 (newEngine 1000 None)))) = Some 60000
   \<and> (60002 :: nat) div 60000 \<le> 60000 div 60000
   \<and> fsmState (longState (updateLtp 60002 ''BTCUSDT'' 101
      (processWebhookSignal 60001 buySignal100 (updateLtp 60000 ''BTCUSDT'' 100
        (processWebhookSignal 1000 buySignal100 (newEngine 1000 None)))))) = BUYPOSITION
   \<and> lastBlockedAtMs (longState (updateLtp 60002 ''BTCUSDT'' 101
      (processWebhookSignal 60001 buySignal100 (updateLtp 60000 ''BTCUSDT'' 100
        (processWebhookSignal 1000 buySignal100 (newEngine 1000 None)))))) = Some 60000"
proof -
  let ?e1 = "updateLtp 60000 ''BTCUSDT'' 100
      (processWebhookSignal 1000 buySignal100 (newEngine 1000 None))"
  have b: "fsmState (longState ?e1) = NOPOSITION_BLOCKED"
    "lastBlockedAtMs (longState ?e1) = Some 60000" "paperTrade (longState ?e1) = None"
    by (simp_all add: longState_updateLtp isBtc_BTCUSDT buySignal100_arms_long initTrack_def
          long_defs live_defs paper_defs Let_def)
  obtain r where r: "longState (processWebhookSignal 60001 buySignal100 ?e1) =
      armTrack (longState ?e1) r (Num 100) 60001"
    using longState_buySignal100 by blast
  have a: "fsmState (armTrack (longState ?e1) r (Num 100) 60001) = NOPOSITION_SIGNAL"
    "paperTrade (armTrack (longState ?e1) r (Num 100) 60001) = None"
    "lastBlockedAtMs (armTrack (longState ?e1) r (Num 100) 60001) = Some 60000"
    "threshold (armTrack (longState ?e1) r (Num 100) 60001) = Num 100"
    by (simp_all add: armTrack_fields threshold_armTrack b)
  have t: "fsmState (longTick 60002 ''BTCUSDT'' 101 60002
             (armTrack (longState ?e1) r (Num 100) 60001)) = BUYPOSITION"
    "lastBlockedAtMs (longTick 60002 ''BTCUSDT'' 101 60002
             (armTrack (longState ?e1) r (Num 100) 60001)) = Some 60000"
    by (simp_all add: longTick_def longSafetyCheck_def longUpdatePosition_def longFsmSwitch_def
          a openPaperTrade_frame)
  have e3: "longState (updateLtp 60002 ''BTCUSDT'' 101
              (processWebhookSignal 60001 buySignal100 ?e1)) =
            longTick 60002 ''BTCUSDT'' 101 60002 (armTrack (longState ?e1) r (Num 100) 60001)"
    by (simp add: longState_updateLtp [of 60002] isBtc_BTCUSDT r)
  show ?thesis using b(1,2) t by (simp add: e3)
qed

end
